theory Spec2Isabelle
  imports Complex_Main "HOL-Library.Product_Lexorder" "HOL-Library.List_Lexorder"
    "HOL-Library.Multiset"
begin

section \<open>Data model\<close>

text \<open>
  A Python float is a double: a finite number, an infinity or NaN. The
  finite floats are modelled by the real numbers, of which the doubles are a
  subset, so what is proved for every real holds for every double. A decimal
  literal of the source denotes the double nearest to it; the only literal
  that a threshold compares with and that is not a double itself is 9.9,
  whose double lies above it with no double between the two, so a double is at
  least the one exactly when it is at least the other.
\<close>

datatype pyfloat = Fin real | PInf | NInf | NaN

text \<open>
  The order of the floats that are not NaN, through their position on the
  extended real line. A comparison with NaN is false, also \<^verbatim>\<open>==\<close>.
\<close>

fun rank :: "pyfloat \<Rightarrow> int \<times> real" where
  "rank NInf = (- 1, 0)"
| "rank (Fin r) = (0, r)"
| "rank PInf = (1, 0)"
| "rank NaN = (2, 0)"

instantiation pyfloat :: "{ord, uminus}"
begin

definition less_pyfloat :: "pyfloat \<Rightarrow> pyfloat \<Rightarrow> bool" where
  "less_pyfloat a b \<longleftrightarrow> a \<noteq> NaN \<and> b \<noteq> NaN \<and> rank a < rank b"

definition less_eq_pyfloat :: "pyfloat \<Rightarrow> pyfloat \<Rightarrow> bool" where
  "less_eq_pyfloat a b \<longleftrightarrow> a \<noteq> NaN \<and> b \<noteq> NaN \<and> rank a \<le> rank b"

fun uminus_pyfloat :: "pyfloat \<Rightarrow> pyfloat" where
  "uminus_pyfloat (Fin r) = Fin (- r)"
| "uminus_pyfloat PInf = NInf"
| "uminus_pyfloat NInf = PInf"
| "uminus_pyfloat NaN = NaN"

instance ..

end

text \<open>
  Double arithmetic gives the exact result rounded to a double, or an
  infinity when it overflows. The rounding is a parameter of which nothing is
  assumed. Subtraction, division and multiplication follow IEEE 754 on the
  infinities and NaN. Every divisor in this program is positive (the constant
  100000000, or a previous close that has passed \<^verbatim>\<open>> 0\<close>); a division by zero,
  on which Python's floats and the data library's differ, is not reached and
  gives NaN here.
\<close>

type_synonym rounding = "real \<Rightarrow> pyfloat"

fun fsub :: "rounding \<Rightarrow> pyfloat \<Rightarrow> pyfloat \<Rightarrow> pyfloat" where
  "fsub rd (Fin x) (Fin y) = rd (x - y)"
| "fsub rd (Fin x) PInf = NInf"
| "fsub rd (Fin x) NInf = PInf"
| "fsub rd PInf (Fin y) = PInf"
| "fsub rd PInf NInf = PInf"
| "fsub rd NInf (Fin y) = NInf"
| "fsub rd NInf PInf = NInf"
| "fsub rd a b = NaN"

fun fdiv :: "rounding \<Rightarrow> pyfloat \<Rightarrow> pyfloat \<Rightarrow> pyfloat" where
  "fdiv rd (Fin x) (Fin y) = (if y = 0 then NaN else rd (x / y))"
| "fdiv rd (Fin x) PInf = Fin 0"
| "fdiv rd (Fin x) NInf = Fin 0"
| "fdiv rd PInf (Fin y) = (if y > 0 then PInf else if y < 0 then NInf else NaN)"
| "fdiv rd NInf (Fin y) = (if y > 0 then NInf else if y < 0 then PInf else NaN)"
| "fdiv rd a b = NaN"

fun fmul :: "rounding \<Rightarrow> pyfloat \<Rightarrow> pyfloat \<Rightarrow> pyfloat" where
  "fmul rd (Fin x) (Fin y) = rd (x * y)"
| "fmul rd (Fin x) PInf = (if x > 0 then PInf else if x < 0 then NInf else NaN)"
| "fmul rd (Fin x) NInf = (if x > 0 then NInf else if x < 0 then PInf else NaN)"
| "fmul rd PInf (Fin y) = (if y > 0 then PInf else if y < 0 then NInf else NaN)"
| "fmul rd NInf (Fin y) = (if y > 0 then NInf else if y < 0 then PInf else NaN)"
| "fmul rd PInf PInf = PInf"
| "fmul rd PInf NInf = NInf"
| "fmul rd NInf PInf = NInf"
| "fmul rd NInf NInf = PInf"
| "fmul rd a b = NaN"

subsection \<open>Sorting\<close>

text \<open>
  A sort key is a float or a tuple of numbers; it is the list of its
  components here, an integer component being the float of the same value.
  \<^verbatim>\<open>list.sort\<close> compares keys with \<^verbatim>\<open><\<close> only. On tuples that is the comparison
  of the first components that are not \<^verbatim>\<open>==\<close>.
\<close>

type_synonym pykey = "pyfloat list"

fun key_lt :: "pykey \<Rightarrow> pykey \<Rightarrow> bool" where
  "key_lt [] [] = False"
| "key_lt [] (b # bs) = True"
| "key_lt (a # as) [] = False"
| "key_lt (a # as) (b # bs) = (if a \<noteq> NaN \<and> a = b then key_lt as bs else a < b)"

definition comparable :: "pykey \<Rightarrow> bool" where
  "comparable k \<longleftrightarrow> NaN \<notin> set k"

text \<open>A list in which no element is less than the one before it.\<close>

fun no_descent :: "pykey list \<Rightarrow> bool" where
  "no_descent (a # b # ks) = (\<not> key_lt b a \<and> no_descent (b # ks))"
| "no_descent ks = True"

text \<open>
  Sorting by insertion: an element goes in front of the longest suffix whose
  elements are all greater. It shows that the type of sorters below is
  inhabited, and is the sorter of the concrete inputs.
\<close>

fun insert_key :: "pykey \<times> 'a \<Rightarrow> (pykey \<times> 'a) list \<Rightarrow> (pykey \<times> 'a) list" where
  "insert_key x [] = [x]"
| "insert_key x (y # ys) =
     (if list_all (\<lambda>z. key_lt (fst x) (fst z)) (y # ys) then x # y # ys
      else y # insert_key x ys)"

definition insertion_sort :: "(pykey \<times> 'a) list \<Rightarrow> (pykey \<times> 'a) list" where
  "insertion_sort xs = fold insert_key xs []"

text \<open>
  CPython's \<^verbatim>\<open>list.sort\<close> is a merge sort of natural runs. When a NaN makes keys
  incomparable the list it leaves depends on the runs and merges the
  algorithm happens to take, which are not modelled: the sorter is a
  parameter. What is known of it is what holds of the algorithm, as CPython
  implements it up to version 3.12, for every comparison that is never true
  both ways: it rearranges the list; it leaves a list without a descent (a run
  is extended while the next element is not less than the last, a strictly
  descending run is reversed, and an insertion or a merge puts an element
  after one it is not less than and before one it is less than); and it
  leaves a list without a descent as it is (the whole list is its first run).
  Later versions detect descending runs in another way, and the absence of a
  descent is not known of them.
\<close>

typedef 'a sorter =
  "{f :: (pykey \<times> 'a) list \<Rightarrow> (pykey \<times> 'a) list.
      \<forall>xs. mset (f xs) = mset xs \<and> no_descent (map fst (f xs))
           \<and> (no_descent (map fst xs) \<longrightarrow> f xs = xs)}"
  morphisms arrange Sorter
proof
  have asym: "\<not> key_lt b a" if "key_lt a b" for a b
    using that
  proof (induction a b rule: key_lt.induct)
    case (4 a as b bs)
    then show ?case
      by (auto simp: less_pyfloat_def split: if_splits)
  qed simp_all
  have ms: "mset (insert_key x ys) = add_mset x (mset ys)" for x :: "pykey \<times> 'a" and ys
    by (induction ys) simp_all
  have nd: "no_descent (map fst (insert_key x ys))"
    if "no_descent (map fst ys)" for x :: "pykey \<times> 'a" and ys
    using that
  proof (induction ys rule: induct_list012)
    case 1
    show ?case by simp
  next
    case (2 y)
    show ?case by (auto dest: asym)
  next
    case (3 y z zs)
    then show ?case by (auto dest: asym)
  qed
  have pre: "no_descent ks" if "no_descent (ks @ [k])" for ks k
    using that by (induction ks rule: induct_list012) auto
  have lst: "\<not> key_lt k (last ks)" if "no_descent (ks @ [k])" "ks \<noteq> []" for ks k
    using that by (induction ks rule: induct_list012) auto
  have all_last: "P (last zs)" if "list_all P zs" "zs \<noteq> []" for P :: "pykey \<times> 'a \<Rightarrow> bool" and zs
    using that by (induction zs) auto
  have fx: "insert_key x ys = ys @ [x]"
    if "no_descent (map fst (ys @ [x]))" for x :: "pykey \<times> 'a" and ys
    using that
  proof (induction ys)
    case Nil
    show ?case by simp
  next
    case (Cons y ys)
    from Cons.prems have "\<not> key_lt (fst x) (last (map fst (y # ys)))"
      using lst [of "map fst (y # ys)" "fst x"] by simp
    moreover have "last (map fst (y # ys)) = fst (last (y # ys))"
      by (rule last_map) simp
    ultimately have "\<not> key_lt (fst x) (fst (last (y # ys)))"
      by (simp only: simp_thms)
    then have n: "\<not> list_all (\<lambda>z. key_lt (fst x) (fst z)) (y # ys)"
      using all_last [where P = "\<lambda>z. key_lt (fst x) (fst z)" and zs = "y # ys"]
      by (simp only: list.distinct simp_thms not_False_eq_True) blast
    from Cons.prems have "no_descent (map fst (ys @ [x]))"
      by (cases ys) auto
    with Cons.IH have "insert_key x ys = ys @ [x]" by blast
    moreover from n have "insert_key x (y # ys) = y # insert_key x ys"
      by (simp only: insert_key.simps if_False)
    ultimately show ?case by simp
  qed
  have a: "mset (insertion_sort xs) = mset xs" for xs :: "(pykey \<times> 'a) list"
    unfolding insertion_sort_def by (induction xs rule: rev_induct) (simp_all add: ms)
  have b: "no_descent (map fst (insertion_sort xs))" for xs :: "(pykey \<times> 'a) list"
    unfolding insertion_sort_def by (induction xs rule: rev_induct) (simp_all add: nd)
  have c: "insertion_sort xs = xs" if "no_descent (map fst xs)" for xs :: "(pykey \<times> 'a) list"
    using that unfolding insertion_sort_def
  proof (induction xs rule: rev_induct)
    case Nil
    show ?case by simp
  next
    case (snoc x xs)
    from snoc.prems have "no_descent (map fst xs)"
      using pre [of "map fst xs" "fst x"] by simp
    with snoc.IH have "fold insert_key xs [] = xs" by simp
    with fx [OF snoc.prems] show ?case by simp
  qed
  show "insertion_sort \<in> {f :: (pykey \<times> 'a) list \<Rightarrow> (pykey \<times> 'a) list.
      \<forall>xs. mset (f xs) = mset xs \<and> no_descent (map fst (f xs))
           \<and> (no_descent (map fst xs) \<longrightarrow> f xs = xs)}"
    using a b c by blast
qed

text \<open>
  \<^verbatim>\<open>xs.sort(key=key, reverse=reverse)\<close>. On keys without a NaN the comparison is a
  linear order and the sort is the stable sort; \<^const>\<open>rank\<close> carries the order to
  a type that has one. With a NaN the runtime's sorter arranges the list.
  For \<^verbatim>\<open>reverse=True\<close> CPython reverses the list, sorts it in ascending order
  and reverses the result.
\<close>

definition list_sort :: "'a sorter \<Rightarrow> ('a \<Rightarrow> pykey) \<Rightarrow> bool \<Rightarrow> 'a list \<Rightarrow> 'a list" where
  "list_sort srt key reverse xs =
     (let ys = (if reverse then rev xs else xs);
          zs = (if list_all (\<lambda>x. comparable (key x)) ys
                then sort_key (\<lambda>x. map rank (key x)) ys
                else map snd (arrange srt (map (\<lambda>x. (key x, x)) ys)))
      in if reverse then rev zs else zs)"

text \<open>
  A candidate stock is a Python dict in the source; every dict built in
  \<^verbatim>\<open>stock_pool_panel.py\<close> carries the same ten keys, so it is a record here and
  the defaults of \<^verbatim>\<open>dict.get\<close> for these keys are never taken. The key \<^verbatim>\<open>_score\<close>
  exists only on the records built by the technical scan and is an option.
  Text that is Chinese in the source is written in ASCII. The entry reason is
  an f-string over a fixed template in every producer, so it is a tagged value
  holding the template's arguments.
\<close>

datatype tech_signal =
    LimitUp
  | BigRise pyfloat
  | Rise pyfloat
  | Volume3
  | Volume2
  | ActiveTurnover

datatype reason =
    LeaderOf string
  | ConstituentOf string
  | Breakout "tech_signal list"
  | EtfRotation pyfloat
  | ReasonText string

record stock =
  code :: string
  name :: string
  source :: string
  data_source :: string
  period :: string
  priority :: int
  mainline_score :: pyfloat
  change_pct :: pyfloat
  entry_reason :: reason
  sector :: string
  tech_score :: "int option"

text \<open>
  The part of the Python runtime that the program's results depend on and
  that is not fixed by the language: the rounding of double arithmetic and the
  arrangement that \<^verbatim>\<open>list.sort\<close> leaves when keys are incomparable.
\<close>

record runtime =
  round_double :: rounding
  nan_sort :: "stock sorter"

text \<open>
  An exception is a value; a call that may raise returns \<open>error + 'a\<close>, with
  \<^const>\<open>Inl\<close> for the exception.
\<close>

datatype error = Exception string

section \<open>Deduplication and ranking\<close>

text \<open>
  \<^verbatim>\<open>MainlineScanWorker._deduplicate_and_sort\<close>: the loop keeps a set \<^verbatim>\<open>seen\<close> and
  a list \<^verbatim>\<open>unique\<close>; a record is appended when its code is non-empty and not yet
  seen.
\<close>

definition dedup_code_step :: "stock \<Rightarrow> string set \<times> stock list \<Rightarrow> string set \<times> stock list" where
  "dedup_code_step s st =
     (let c = code s in
      if c \<noteq> [] \<and> c \<notin> fst st then (insert c (fst st), snd st @ [s]) else st)"

definition dedup_code_loop :: "stock list \<Rightarrow> stock list" where
  "dedup_code_loop stocks = snd (fold dedup_code_step stocks ({}, []))"

text \<open>
  The sort key of \<^verbatim>\<open>_deduplicate_and_sort\<close> is the tuple
  \<^verbatim>\<open>(priority, -mainline_score, -change_pct)\<close>.
\<close>

definition mainline_sort_key :: "stock \<Rightarrow> pykey" where
  "mainline_sort_key x = [Fin (of_int (priority x)), - mainline_score x, - change_pct x]"

definition deduplicate_and_sort :: "runtime \<Rightarrow> stock list \<Rightarrow> stock list" where
  "deduplicate_and_sort rt stocks =
     take 30 (list_sort (nan_sort rt) mainline_sort_key False (dedup_code_loop stocks))"

text \<open>
  The merge in \<^verbatim>\<open>StockPoolPanel._on_overview_external_done\<close>: the key is the code,
  or the name when the code is empty; a record with an empty key is skipped.
  The sort key is the tuple \<^verbatim>\<open>(priority, -mainline_score)\<close>.
\<close>

definition overview_key :: "stock \<Rightarrow> string" where
  "overview_key s = (if code s \<noteq> [] then code s else name s)"

definition overview_step :: "stock \<Rightarrow> string set \<times> stock list \<Rightarrow> string set \<times> stock list" where
  "overview_step s st =
     (let key = overview_key s in
      if key \<noteq> [] \<and> key \<notin> fst st then (insert key (fst st), snd st @ [s]) else st)"

definition overview_sort_key :: "stock \<Rightarrow> pykey" where
  "overview_sort_key x = [Fin (of_int (priority x)), - mainline_score x]"

definition overview_unique :: "runtime \<Rightarrow> stock list \<Rightarrow> stock list" where
  "overview_unique rt all_stocks =
     list_sort (nan_sort rt) overview_sort_key False (snd (fold overview_step all_stocks ({}, [])))"

definition overview_rows :: "runtime \<Rightarrow> stock list \<Rightarrow> stock list" where
  "overview_rows rt all_stocks = take 50 (overview_unique rt all_stocks)"

text \<open>The loop written as a recursive function of the set of keys seen so far.\<close>

fun first_seen :: "('a \<Rightarrow> string) \<Rightarrow> string set \<Rightarrow> 'a list \<Rightarrow> 'a list" where
  "first_seen k seen [] = []"
| "first_seen k seen (x # xs) =
     (if k x \<noteq> [] \<and> k x \<notin> seen then x # first_seen k (insert (k x) seen) xs
      else first_seen k seen xs)"

section \<open>Technical breakout scan\<close>

text \<open>
  A row of the market snapshot (\<^verbatim>\<open>ak.stock_zh_a_spot_em()\<close>). The name and the code
  are read through \<^verbatim>\<open>str\<close>. A numeric column holds nothing (\<^verbatim>\<open>None\<close>, or the
  column is missing), a number, which may be the NaN that the data library
  puts where a value is missing, or a non-empty text that \<^verbatim>\<open>float\<close> rejects.
\<close>

datatype cell = Absent | Num pyfloat | Junk string

record spot_row =
  row_name :: string
  row_code :: string
  row_change :: cell
  row_volume_ratio :: cell
  row_turnover :: cell
  row_total_cap :: cell
  row_price :: cell

text \<open>
  \<^verbatim>\<open>float(row.get(key, d) or d)\<close>: \<^verbatim>\<open>None\<close> and the number 0 are falsy and give the
  default; NaN is truthy and stays.
\<close>

definition float_or :: "pyfloat \<Rightarrow> cell \<Rightarrow> error + pyfloat" where
  "float_or d c =
     (case c of
        Absent \<Rightarrow> Inr d
      | Num x \<Rightarrow> Inr (if x = Fin 0 then d else x)
      | Junk t \<Rightarrow> Inl (Exception ''ValueError''))"

text \<open>Python's \<^verbatim>\<open>sub in s\<close> on strings.\<close>

fun str_in :: "string \<Rightarrow> string \<Rightarrow> bool" where
  "str_in sub [] = (sub = [])"
| "str_in sub (c # cs) = (take (length sub) (c # cs) = sub \<or> str_in sub cs)"

text \<open>
  \<^verbatim>\<open>list.sort(key=..., reverse=True)\<close> on integer keys: CPython reverses the list,
  sorts it stably in ascending order and reverses the result, so equal keys
  keep their order.
\<close>

definition sort_reverse :: "('a \<Rightarrow> 'k::linorder) \<Rightarrow> 'a list \<Rightarrow> 'a list" where
  "sort_reverse f xs = rev (sort_key f (rev xs))"

text \<open>The signals and the score of one row (lines 575 to 597).\<close>

definition change_signal :: "pyfloat \<Rightarrow> tech_signal list \<times> int" where
  "change_signal change =
     (if change \<ge> Fin 9.9 then ([LimitUp], 40)
      else if change \<ge> Fin 7 then ([BigRise change], 25)
      else if change \<ge> Fin 5 then ([Rise change], 15)
      else ([], 0))"

definition volume_signal :: "pyfloat \<Rightarrow> tech_signal list \<times> int" where
  "volume_signal volume_ratio =
     (if volume_ratio \<ge> Fin 3 then ([Volume3], 25)
      else if volume_ratio \<ge> Fin 2 then ([Volume2], 15)
      else ([], 0))"

definition turnover_signal :: "pyfloat \<Rightarrow> tech_signal list \<times> int" where
  "turnover_signal turnover =
     (if Fin 5 \<le> turnover \<and> turnover \<le> Fin 15 then ([ActiveTurnover], 10) else ([], 0))"

definition tech_signals :: "pyfloat \<Rightarrow> pyfloat \<Rightarrow> pyfloat \<Rightarrow> tech_signal list \<times> int" where
  "tech_signals change volume_ratio turnover =
     (fst (change_signal change) @ fst (volume_signal volume_ratio) @ fst (turnover_signal turnover),
      snd (change_signal change) + snd (volume_signal volume_ratio) + snd (turnover_signal turnover))"

text \<open>
  The body of the loop over the rows: \<^const>\<open>None\<close> is a \<^verbatim>\<open>continue\<close>, \<^const>\<open>Some\<close> the
  record appended to \<^verbatim>\<open>stocks\<close>, \<^const>\<open>Inl\<close> an exception that leaves the loop.
\<close>

definition tech_row :: "runtime \<Rightarrow> string \<Rightarrow> string \<Rightarrow> spot_row \<Rightarrow> error + stock option" where
  "tech_row rt per src row =
     (if row_name row = [] \<or> row_code row = [] then Inr None
      else if str_in ''ST'' (row_name row) then Inr None
      else
        case float_or (Fin 0) (row_change row) of Inl e \<Rightarrow> Inl e | Inr change \<Rightarrow>
        case float_or (Fin 1) (row_volume_ratio row) of Inl e \<Rightarrow> Inl e | Inr volume_ratio \<Rightarrow>
        case float_or (Fin 0) (row_turnover row) of Inl e \<Rightarrow> Inl e | Inr turnover \<Rightarrow>
        case float_or (Fin 0) (row_total_cap row) of Inl e \<Rightarrow> Inl e | Inr cap \<Rightarrow>
          (let market_cap = fdiv (round_double rt) cap (Fin 100000000) in
           if market_cap < Fin 30 \<or> market_cap > Fin 5000 then Inr None
           else
             (let (signals, score) = tech_signals change volume_ratio turnover in
              if signals \<noteq> [] \<and> score \<ge> 25 then
                Inr (Some \<lparr>code = row_code row, name = row_name row,
                  source = ''tech_breakout'', data_source = src, period = per,
                  priority = (if score \<ge> 50 then 2 else 3), mainline_score = Fin 0,
                  change_pct = change, entry_reason = Breakout signals, sector = [],
                  tech_score = Some score\<rparr>)
              else Inr None)))"

fun tech_rows :: "runtime \<Rightarrow> string \<Rightarrow> string \<Rightarrow> spot_row list \<Rightarrow> error + stock list" where
  "tech_rows rt per src [] = Inr []"
| "tech_rows rt per src (row # rows) =
     (case tech_row rt per src row of
        Inl e \<Rightarrow> Inl e
      | Inr None \<Rightarrow> tech_rows rt per src rows
      | Inr (Some s) \<Rightarrow>
          (case tech_rows rt per src rows of Inl e \<Rightarrow> Inl e | Inr ss \<Rightarrow> Inr (s # ss)))"

definition get_score :: "stock \<Rightarrow> int" where
  "get_score x = (case tech_score x of None \<Rightarrow> 0 | Some v \<Rightarrow> v)"

text \<open>
  What a worker hands back: the records it logged and the one signal it emits
  before \<^verbatim>\<open>run\<close> returns, \<^verbatim>\<open>finished(list, str)\<close> or, for the factor filter,
  \<^verbatim>\<open>error(str)\<close>. The \<^verbatim>\<open>progress\<close> signals only drive a progress bar and are left
  out.
\<close>

datatype level = Debug | Info | Warning | Error

datatype 'a signal = Finished "'a list" string | Failed string

record 'a emission =
  logged :: "(level \<times> string) list"
  emitted :: "'a signal"

definition get_mock_tech_stocks :: "stock list" where
  "get_mock_tech_stocks =
     [\<lparr>code = ''300750'', name = ''Ningde Shidai'', source = ''tech_breakout'',
       data_source = ''mock'', period = ''short'', priority = 2, mainline_score = Fin 0,
       change_pct = Fin 9.98, entry_reason = Breakout [LimitUp, Volume3], sector = [],
       tech_score = None\<rparr>,
      \<lparr>code = ''002594'', name = ''Biyadi'', source = ''tech_breakout'',
       data_source = ''mock'', period = ''short'', priority = 2, mainline_score = Fin 0,
       change_pct = Fin 9.95, entry_reason = Breakout [LimitUp, Volume2], sector = [],
       tech_score = None\<rparr>]"

text \<open>
  \<^verbatim>\<open>TechScanWorker.run\<close>. The argument \<open>ak\<close> is what the snapshot call did: it
  raised, it returned \<^verbatim>\<open>None\<close>, or it returned a frame (its rows).
\<close>

definition TechScanWorker_run ::
  "runtime \<Rightarrow> string \<Rightarrow> error + spot_row list option \<Rightarrow> stock emission" where
  "TechScanWorker_run rt per ak =
     (let (log1, df) =
        (case ak of
           Inl (Exception m) \<Rightarrow> ([(Warning, m)], None)
         | Inr d \<Rightarrow> ([], d))
      in
      case df of
        None \<Rightarrow> \<lparr>logged = log1, emitted = Finished get_mock_tech_stocks ''mock''\<rparr>
      | Some rows \<Rightarrow>
          if rows = [] then \<lparr>logged = log1, emitted = Finished get_mock_tech_stocks ''mock''\<rparr>
          else
            (case tech_rows rt per ''AKShare realtime'' rows of
               Inl (Exception m) \<Rightarrow>
                 \<lparr>logged = log1 @ [(Error, m)], emitted = Finished get_mock_tech_stocks ''mock''\<rparr>
             | Inr stocks \<Rightarrow>
                 \<lparr>logged = log1,
                  emitted = Finished (take 20 (sort_reverse get_score stocks)) ''AKShare realtime''\<rparr>))"

text \<open>
  The filter as the specification words it: the score is the sum of the three
  additive contributions, and a stock is accepted when its capitalisation is
  within the bounds, it has a momentum or a volume signal, and the score is at
  least 25.
\<close>

definition spec_score :: "pyfloat \<Rightarrow> pyfloat \<Rightarrow> pyfloat \<Rightarrow> int" where
  "spec_score change volume_ratio turnover =
     (if change \<ge> Fin 9.9 then 40 else if change \<ge> Fin 7 then 25
      else if change \<ge> Fin 5 then 15 else 0)
     + (if volume_ratio \<ge> Fin 3 then 25 else if volume_ratio \<ge> Fin 2 then 15 else 0)
     + (if Fin 5 \<le> turnover \<and> turnover \<le> Fin 15 then 10 else 0)"

definition spec_accept :: "pyfloat \<Rightarrow> pyfloat \<Rightarrow> pyfloat \<Rightarrow> pyfloat \<Rightarrow> bool" where
  "spec_accept market_cap change volume_ratio turnover \<longleftrightarrow>
     Fin 30 \<le> market_cap \<and> market_cap \<le> Fin 5000
     \<and> (change \<ge> Fin 5 \<or> volume_ratio \<ge> Fin 2)
     \<and> spec_score change volume_ratio turnover \<ge> 25"

definition finished_list :: "'a signal \<Rightarrow> 'a list" where
  "finished_list sg = (case sg of Finished xs d \<Rightarrow> xs | Failed m \<Rightarrow> [])"

section \<open>Mainline scan\<close>

text \<open>
  A theme record as \<^verbatim>\<open>MainlineScanWorker.run\<close> reads it from the document store.
  The score is a number (a NaN included), missing (the default 0 of
  \<^verbatim>\<open>dict.get\<close> applies) or present but not a number (a JSON null, a text):
  comparing that raises \<^verbatim>\<open>TypeError\<close>.
\<close>

datatype score_field = NoScore | Score pyfloat | BadScore

record mainline =
  ml_name :: string
  ml_jqdata_mapped :: bool
  ml_jqdata_code :: string
  ml_jqdata_name :: string
  ml_jqdata_type :: string
  ml_total_score :: score_field
  ml_leader_stock :: string
  ml_leader_change :: pyfloat

record mainline_worker =
  worker_period :: string
  max_mainlines :: int
  max_stocks_per_mainline :: int

text \<open>A constituent as \<^verbatim>\<open>_get_stocks_from_jqdata\<close> returns it.\<close>

record constituent =
  c_code :: string
  c_jqdata_code :: string

text \<open>
  What the external collaborators did during one run: every call either raised
  or returned. \<^verbatim>\<open>jq_config\<close> is the import of the SDK client and the look-up of
  the configuration (whether a user name and a password are configured),
  \<^verbatim>\<open>jq_authenticate\<close> the construction of the client and its authentication,
  \<^verbatim>\<open>jq_permission\<close> the query of the data permission, \<^verbatim>\<open>mongo_connect\<close> the
  connection to the document store, \<^verbatim>\<open>mongo_latest\<close> the newest document of
  \<^verbatim>\<open>mainline_mapped\<close>, \<^verbatim>\<open>file_load\<close> the lists \<^verbatim>\<open>top20\<close> and \<^verbatim>\<open>scores\<close> of the
  composite score file, \<^verbatim>\<open>mapper_create\<close> the import and construction of the theme
  mapper, \<^verbatim>\<open>map_mainline\<close> the mapping (code, name, type) of a theme name,
  \<^verbatim>\<open>concept_stocks\<close> and \<^verbatim>\<open>industry_stocks\<close> the constituent queries, \<^verbatim>\<open>spot\<close> the
  market snapshot, \<^verbatim>\<open>display_name\<close> the look-up of a security's name,
  \<^verbatim>\<open>get_price\<close> the last row of the price frame of a security (\<^const>\<open>None\<close> for an
  empty frame): its close and its previous close, each \<^const>\<open>None\<close> when the
  frame has no such column, and \<^verbatim>\<open>stop_seen i\<close> the value of the stop flag read at
  iteration \<open>i\<close>. A collaborator that is asked the same thing twice during a
  run answers the same way.

  \<^verbatim>\<open>_init_jqdata\<close> stores the client in \<^verbatim>\<open>self.jq_client\<close> before it can return
  \<^verbatim>\<open>True\<close>, and \<^verbatim>\<open>run\<close> calls the other helpers only after that, so their tests
  of \<^verbatim>\<open>self.jq_client\<close> (lines 282, 316, 372 and 442) always find a client and
  have no branch here.
\<close>

record jq_env =
  jq_config :: "error + bool"
  jq_authenticate :: "error + bool"
  jq_permission :: "error + unit"
  mongo_connect :: "error + unit"
  mongo_latest :: "error + mainline list option"
  file_exists :: bool
  file_load :: "error + mainline list \<times> mainline list"
  mapper_create :: "error + unit"
  map_mainline :: "string \<Rightarrow> error + (string \<times> string \<times> string) option"
  concept_stocks :: "string \<Rightarrow> error + string list"
  industry_stocks :: "string \<Rightarrow> error + string list"
  spot :: "error + spot_row list option"
  display_name :: "string \<Rightarrow> error + string option"
  get_price :: "string \<Rightarrow> error + (pyfloat option \<times> pyfloat option) option"
  stop_seen :: "nat \<Rightarrow> bool"

type_synonym log = "(level \<times> string) list"

text \<open>
  The log holds the records that exception handlers write, in order; the
  informational records of the normal path are left out.
\<close>

definition get_mock_mainline_stocks :: "stock list" where
  "get_mock_mainline_stocks =
     [\<lparr>code = ''002230'', name = ''Keda Xunfei'', source = ''mainline'', data_source = ''mock'',
       period = ''medium'', priority = 1, mainline_score = Fin 88.5, change_pct = Fin 5.2,
       entry_reason = LeaderOf ''AI'', sector = ''AI'', tech_score = None\<rparr>,
      \<lparr>code = ''300750'', name = ''Ningde Shidai'', source = ''mainline'', data_source = ''mock'',
       period = ''medium'', priority = 1, mainline_score = Fin 85.3, change_pct = Fin 3.8,
       entry_reason = LeaderOf ''New Energy'', sector = ''New Energy'', tech_score = None\<rparr>,
      \<lparr>code = ''688981'', name = ''Zhongxin Guoji'', source = ''mainline'', data_source = ''mock'',
       period = ''medium'', priority = 1, mainline_score = Fin 82.1, change_pct = Fin 4.5,
       entry_reason = LeaderOf ''Semiconductor'', sector = ''Semiconductor'', tech_score = None\<rparr>,
      \<lparr>code = ''600760'', name = ''Zhonghang Shenfei'', source = ''mainline'', data_source = ''mock'',
       period = ''medium'', priority = 1, mainline_score = Fin 80.7, change_pct = Fin 6.1,
       entry_reason = LeaderOf ''Defence'', sector = ''Defence'', tech_score = None\<rparr>,
      \<lparr>code = ''601012'', name = ''Longji Lvneng'', source = ''mainline'', data_source = ''mock'',
       period = ''medium'', priority = 1, mainline_score = Fin 78.9, change_pct = Fin 2.9,
       entry_reason = LeaderOf ''Photovoltaic'', sector = ''Photovoltaic'', tech_score = None\<rparr>]"

text \<open>Python's \<^verbatim>\<open>xs[:n]\<close>; a negative \<open>n\<close> counts from the end.\<close>

definition py_prefix :: "int \<Rightarrow> 'a list \<Rightarrow> 'a list" where
  "py_prefix n xs = (if n \<ge> 0 then take (nat n) xs else take (length xs - nat (- n)) xs)"

text \<open>\<^verbatim>\<open>s.replace(old, '')\<close> for a non-empty \<open>old\<close>.\<close>

function str_remove :: "string \<Rightarrow> string \<Rightarrow> string" where
  "str_remove old [] = []"
| "str_remove old (c # cs) =
     (if old \<noteq> [] \<and> take (length old) (c # cs) = old
      then str_remove old (drop (length old) (c # cs))
      else c # str_remove old cs)"
  by pat_completeness auto
termination
  by (relation "measure (\<lambda>(old, s). length s)") (auto simp: neq_Nil_conv)

definition init_jqdata :: "jq_env \<Rightarrow> log \<times> bool" where
  "init_jqdata env =
     (case jq_config env of
        Inl (Exception m) \<Rightarrow> ([(Error, m)], False)
      | Inr has_credentials \<Rightarrow>
          if \<not> has_credentials then ([], False)
          else
            (case jq_authenticate env of
               Inl (Exception m) \<Rightarrow> ([(Error, m)], False)
             | Inr ok \<Rightarrow>
                 if \<not> ok then ([], False)
                 else
                   (case jq_permission env of
                      Inl (Exception m) \<Rightarrow> ([(Error, m)], False)
                    | Inr u \<Rightarrow> ([], True))))"

definition init_mongodb :: "jq_env \<Rightarrow> log \<times> bool" where
  "init_mongodb env =
     (case mongo_connect env of
        Inl (Exception m) \<Rightarrow> ([(Warning, m)], False)
      | Inr u \<Rightarrow> ([], True))"

definition load_mapped_mainlines :: "jq_env \<Rightarrow> log \<times> mainline list" where
  "load_mapped_mainlines env =
     (let (l1, ok) = init_mongodb env in
      if \<not> ok then (l1, [])
      else
        (case mongo_latest env of
           Inl (Exception m) \<Rightarrow> (l1 @ [(Warning, m)], [])
         | Inr None \<Rightarrow> (l1, [])
         | Inr (Some mainlines) \<Rightarrow> (l1, mainlines)))"

definition load_mainline_from_file :: "jq_env \<Rightarrow> log \<times> mainline list" where
  "load_mainline_from_file env =
     (if file_exists env then
        (case file_load env of
           Inl (Exception m) \<Rightarrow> ([(Warning, m)], [])
         | Inr (top20, scores) \<Rightarrow> ([], if top20 \<noteq> [] then top20 else take 20 scores))
      else ([], []))"

fun map_mainlines_loop :: "jq_env \<Rightarrow> mainline list \<Rightarrow> error + mainline list" where
  "map_mainlines_loop env [] = Inr []"
| "map_mainlines_loop env (m # ms) =
     (if ml_name m = [] then map_mainlines_loop env ms
      else
        (case map_mainline env (ml_name m) of
           Inl e \<Rightarrow> Inl e
         | Inr mapping \<Rightarrow>
             (let mapped_data =
                (case mapping of
                   None \<Rightarrow> m\<lparr>ml_jqdata_mapped := False, ml_jqdata_code := [],
                             ml_jqdata_name := [], ml_jqdata_type := []\<rparr>
                 | Some (jcode, jname, jtype) \<Rightarrow>
                     m\<lparr>ml_jqdata_mapped := True, ml_jqdata_code := jcode,
                       ml_jqdata_name := jname, ml_jqdata_type := jtype\<rparr>)
              in case map_mainlines_loop env ms of
                   Inl e \<Rightarrow> Inl e
                 | Inr mapped \<Rightarrow> Inr (mapped_data # mapped))))"

definition map_mainlines_to_jqdata :: "jq_env \<Rightarrow> mainline list \<Rightarrow> log \<times> mainline list" where
  "map_mainlines_to_jqdata env mainlines =
     (case mapper_create env of
        Inl (Exception m) \<Rightarrow> ([(Error, m)], [])
      | Inr u \<Rightarrow>
          (case map_mainlines_loop env mainlines of
             Inl (Exception m) \<Rightarrow> ([(Error, m)], [])
           | Inr mapped \<Rightarrow> ([], mapped)))"

definition get_stocks_from_jqdata :: "jq_env \<Rightarrow> string \<Rightarrow> string \<Rightarrow> log \<times> constituent list" where
  "get_stocks_from_jqdata env jqdata_code jqdata_type =
     (if jqdata_type = ''concept'' \<or> jqdata_type = ''industry'' then
        (case (if jqdata_type = ''concept'' then concept_stocks env jqdata_code
               else industry_stocks env jqdata_code) of
           Inl (Exception m) \<Rightarrow> ([(Warning, m)], [])
         | Inr stocks \<Rightarrow>
             ([], map (\<lambda>st. \<lparr>c_code = str_remove ''.XSHG'' (str_remove ''.XSHE'' st),
                              c_jqdata_code = st\<rparr>) (take 50 stocks)))
      else ([], []))"

definition create_leader_stock ::
  "mainline_worker \<Rightarrow> string \<Rightarrow> string \<Rightarrow> pyfloat \<Rightarrow> pyfloat \<Rightarrow> stock" where
  "create_leader_stock self leader_name mainline_name score change =
     \<lparr>code = [], name = leader_name, source = ''mainline'', data_source = ''leader'',
      period = worker_period self, priority = 1, mainline_score = score, change_pct = change,
      entry_reason = LeaderOf mainline_name, sector = mainline_name, tech_score = None\<rparr>"

text \<open>
  \<^verbatim>\<open>_get_akshare_realtime_data\<close>: the dictionary from code to change, built row by
  row (a later row replaces an earlier one with the same code); each row
  converts its change, price, volume ratio and turnover, in this order.
\<close>

fun realtime_rows ::
  "spot_row list \<Rightarrow> (string \<rightharpoonup> pyfloat) \<Rightarrow> error + (string \<rightharpoonup> pyfloat)" where
  "realtime_rows [] d = Inr d"
| "realtime_rows (row # rows) d =
     (case float_or (Fin 0) (row_change row) of Inl e \<Rightarrow> Inl e | Inr change \<Rightarrow>
      case float_or (Fin 0) (row_price row) of Inl e \<Rightarrow> Inl e | Inr price \<Rightarrow>
      case float_or (Fin 1) (row_volume_ratio row) of Inl e \<Rightarrow> Inl e | Inr volume_ratio \<Rightarrow>
      case float_or (Fin 0) (row_turnover row) of Inl e \<Rightarrow> Inl e | Inr turnover \<Rightarrow>
        realtime_rows rows (d(row_code row \<mapsto> change)))"

definition get_akshare_realtime_data :: "jq_env \<Rightarrow> log \<times> (string \<rightharpoonup> pyfloat) option" where
  "get_akshare_realtime_data env =
     (case spot env of
        Inl (Exception m) \<Rightarrow> ([(Warning, m)], None)
      | Inr None \<Rightarrow> ([], None)
      | Inr (Some rows) \<Rightarrow>
          if rows = [] then ([], None)
          else
            (case realtime_rows rows Map.empty of
               Inl (Exception m) \<Rightarrow> ([(Warning, m)], None)
             | Inr d \<Rightarrow> ([], Some d)))"

text \<open>
  The look-up of a display name sits in a \<^verbatim>\<open>try\<close> whose handler is a bare
  \<^verbatim>\<open>pass\<close>: on a failure the name keeps its default and nothing is logged.
\<close>

definition lookup_name :: "jq_env \<Rightarrow> string \<Rightarrow> string \<Rightarrow> string" where
  "lookup_name env jqdata_code fallback =
     (case display_name env jqdata_code of
        Inl e \<Rightarrow> fallback
      | Inr None \<Rightarrow> fallback
      | Inr (Some n) \<Rightarrow> n)"

text \<open>
  \<^verbatim>\<open>_get_stock_price_jqdata\<close>. The change is computed when the frame has a
  previous close above 0; the subscript \<^verbatim>\<open>latest['close']\<close> then raises when the
  frame has no close, and the handler of the function logs that.
\<close>

definition get_stock_price_jqdata ::
  "runtime \<Rightarrow> jq_env \<Rightarrow> string \<Rightarrow> log \<times> (string \<times> pyfloat) option" where
  "get_stock_price_jqdata rt env jqdata_code =
     (case get_price env jqdata_code of
        Inl (Exception m) \<Rightarrow> ([(Debug, m)], None)
      | Inr None \<Rightarrow> ([], None)
      | Inr (Some (close, pre_close)) \<Rightarrow>
          (let nm = lookup_name env jqdata_code jqdata_code in
           case pre_close of
             None \<Rightarrow> ([], Some (nm, Fin 0))
           | Some pc \<Rightarrow>
               if pc > Fin 0 then
                 (case close of
                    None \<Rightarrow> ([(Debug, ''KeyError'')], None)
                  | Some cl \<Rightarrow>
                      ([], Some (nm,
                         fmul (round_double rt)
                           (fdiv (round_double rt) (fsub (round_double rt) cl pc) pc)
                           (Fin 100))))
               else ([], Some (nm, Fin 0))))"

text \<open>One iteration of the loop of \<^verbatim>\<open>_filter_strong_stocks_jqdata\<close>.\<close>

definition strong_stock_step ::
  "runtime \<Rightarrow> mainline_worker \<Rightarrow> jq_env \<Rightarrow> (string \<rightharpoonup> pyfloat) option \<Rightarrow> pyfloat \<Rightarrow>
     string \<Rightarrow> constituent \<Rightarrow> log \<times> stock list \<Rightarrow> log \<times> stock list" where
  "strong_stock_step rt self env realtime_data score sector_name st acc =
     (let cd = c_code st;
          jqdata_code = c_jqdata_code st;
          nm = lookup_name env jqdata_code cd;
          (l, change, nm) =
            (case (case realtime_data of None \<Rightarrow> None | Some d \<Rightarrow> d cd) of
               Some ch \<Rightarrow> ([], ch, nm)
             | None \<Rightarrow>
                 (case get_stock_price_jqdata rt env jqdata_code of
                    (l, None) \<Rightarrow> (l, Fin 0, nm)
                  | (l, Some (pname, pchange)) \<Rightarrow> (l, pchange, pname)))
      in if change > Fin (- 5) \<or> score \<ge> Fin 70 then
           (fst acc @ l,
            snd acc @ [\<lparr>code = cd, name = nm, source = ''mainline'',
              data_source = ''JQData+AKShare'', period = worker_period self, priority = 2,
              mainline_score = score, change_pct = change,
              entry_reason = ConstituentOf sector_name, sector = sector_name,
              tech_score = None\<rparr>])
         else (fst acc @ l, snd acc))"

text \<open>
  \<^verbatim>\<open>_filter_strong_stocks_jqdata\<close>; it ends with
  \<^verbatim>\<open>result.sort(key=lambda x: x.get("change_pct", 0), reverse=True)\<close>.
\<close>

definition filter_strong_stocks_jqdata ::
  "runtime \<Rightarrow> mainline_worker \<Rightarrow> jq_env \<Rightarrow> constituent list \<Rightarrow> pyfloat \<Rightarrow> string \<Rightarrow>
     log \<times> stock list" where
  "filter_strong_stocks_jqdata rt self env stocks score sector_name =
     (let (l0, realtime_data) = get_akshare_realtime_data env;
          (l1, result) =
            fold (strong_stock_step rt self env realtime_data score sector_name) stocks ([], [])
      in (l0 @ l1, list_sort (nan_sort rt) (\<lambda>x. [change_pct x]) True result))"

text \<open>
  The value of \<^verbatim>\<open>mainline.get("total_score", 0)\<close> as a number, and its comparison
  with a threshold.
\<close>

definition score_number :: "score_field \<Rightarrow> pyfloat" where
  "score_number sc = (case sc of Score x \<Rightarrow> x | NoScore \<Rightarrow> Fin 0 | BadScore \<Rightarrow> Fin 0)"

definition score_ge :: "score_field \<Rightarrow> real \<Rightarrow> error + bool" where
  "score_ge sc k =
     (case sc of
        Score x \<Rightarrow> Inr (x \<ge> Fin k)
      | NoScore \<Rightarrow> Inr (Fin 0 \<ge> Fin k)
      | BadScore \<Rightarrow> Inl (Exception ''TypeError''))"

text \<open>
  The body of the loop of \<^verbatim>\<open>run\<close> over the themes (lines 155 to 188), in two
  parts: the constituents that step 3.2 appends for a theme with a code and a
  score of at least 60, and the list \<^verbatim>\<open>mainline_stocks\<close> of the theme. A record
  built from a score that is not a number holds 0 for it here; such a record
  has an empty code.
\<close>

definition mainline_constituents ::
  "runtime \<Rightarrow> mainline_worker \<Rightarrow> jq_env \<Rightarrow> mainline \<Rightarrow> log \<times> stock list" where
  "mainline_constituents rt self env m =
     (let (l1, concept) = get_stocks_from_jqdata env (ml_jqdata_code m) (ml_jqdata_type m) in
      if concept \<noteq> [] then
        (let (l2, strong_stocks) =
               filter_strong_stocks_jqdata rt self env concept
                 (score_number (ml_total_score m)) (ml_name m);
             strong_stocks = filter (\<lambda>s. name s \<noteq> ml_leader_stock m) strong_stocks
         in (l1 @ l2, py_prefix (max_stocks_per_mainline self) strong_stocks))
      else (l1, []))"

definition leader_part :: "mainline_worker \<Rightarrow> mainline \<Rightarrow> stock list" where
  "leader_part self m =
     (if ml_leader_stock m \<noteq> [] then
        [create_leader_stock self (ml_leader_stock m) (ml_name m)
           (score_number (ml_total_score m)) (ml_leader_change m)]
      else [])"

definition scan_mainline ::
  "runtime \<Rightarrow> mainline_worker \<Rightarrow> jq_env \<Rightarrow> mainline \<Rightarrow> log \<times> (error + stock list)" where
  "scan_mainline rt self env m =
     (let mainline_stocks = leader_part self m in
      if ml_jqdata_code m \<noteq> [] then
        (case score_ge (ml_total_score m) 60 of
           Inl e \<Rightarrow> ([], Inl e)
         | Inr False \<Rightarrow> ([], Inr mainline_stocks)
         | Inr True \<Rightarrow>
             (let (l, strong_stocks) = mainline_constituents rt self env m
              in (l, Inr (mainline_stocks @ strong_stocks))))
      else ([], Inr mainline_stocks))"

fun scan_loop ::
  "runtime \<Rightarrow> mainline_worker \<Rightarrow> jq_env \<Rightarrow> nat \<Rightarrow> mainline list \<Rightarrow> log \<times> (error + stock list)" where
  "scan_loop rt self env i [] = ([], Inr [])"
| "scan_loop rt self env i (m # ms) =
     (if stop_seen env i then ([], Inr [])
      else
        (case scan_mainline rt self env m of
           (l, Inl e) \<Rightarrow> (l, Inl e)
         | (l, Inr mainline_stocks) \<Rightarrow>
             (case scan_loop rt self env (Suc i) ms of
                (l', Inl e) \<Rightarrow> (l @ l', Inl e)
              | (l', Inr later) \<Rightarrow> (l @ l', Inr (mainline_stocks @ later)))))"

text \<open>
  \<^verbatim>\<open>MainlineScanWorker.run\<close>, in the three parts its comments number: the themes
  come from the document store or, when it has none, from the score file and a
  fresh mapping (step 2); the mapped themes are scanned, and the result is
  deduplicated and sorted (steps 3 and 4); \<^verbatim>\<open>run\<close> itself starts with the login
  (step 1). The handler of \<^verbatim>\<open>run\<close> for any exception is the \<^const>\<open>Inl\<close> branch of
  the loop.
\<close>

definition find_mapped_mainlines :: "jq_env \<Rightarrow> log \<times> mainline list" where
  "find_mapped_mainlines env =
     (let (l2, mapped_mainlines) = load_mapped_mainlines env in
      if mapped_mainlines = [] then
        (let (la, mainlines) = load_mainline_from_file env in
         if mainlines \<noteq> [] then
           (let (lb, mapped) = map_mainlines_to_jqdata env mainlines in (l2 @ la @ lb, mapped))
         else (l2 @ la, mapped_mainlines))
      else (l2, mapped_mainlines))"

definition scan_mapped ::
  "runtime \<Rightarrow> mainline_worker \<Rightarrow> jq_env \<Rightarrow> log \<Rightarrow> mainline list \<Rightarrow> stock emission" where
  "scan_mapped rt self env l mapped_mainlines =
     (if mapped_mainlines = [] then
        \<lparr>logged = l, emitted = Finished get_mock_mainline_stocks ''mock''\<rparr>
      else
        (let jqdata_mapped =
               filter (\<lambda>m. ml_jqdata_mapped m \<or> ml_jqdata_code m \<noteq> []) mapped_mainlines
         in if jqdata_mapped = [] then
              \<lparr>logged = l, emitted = Finished get_mock_mainline_stocks ''mock''\<rparr>
            else
              (let total = min (int (length jqdata_mapped)) (max_mainlines self) in
               case scan_loop rt self env 0 (py_prefix total jqdata_mapped) of
                 (l4, Inl (Exception msg)) \<Rightarrow>
                   \<lparr>logged = l @ l4 @ [(Error, msg)],
                    emitted = Finished get_mock_mainline_stocks ''mock (exception)''\<rparr>
               | (l4, Inr all_stocks) \<Rightarrow>
                   \<lparr>logged = l @ l4,
                    emitted = Finished (deduplicate_and_sort rt all_stocks) ''MongoDB + JQData''\<rparr>)))"

definition MainlineScanWorker_run :: "runtime \<Rightarrow> mainline_worker \<Rightarrow> jq_env \<Rightarrow> stock emission" where
  "MainlineScanWorker_run rt self env =
     (let (l1, ok) = init_jqdata env in
      if \<not> ok then
        \<lparr>logged = l1, emitted = Finished get_mock_mainline_stocks ''mock (JQData unavailable)''\<rparr>
      else
        (let (l2, mapped_mainlines) = find_mapped_mainlines env
         in scan_mapped rt self env (l1 @ l2) mapped_mainlines))"


section \<open>ETF scan and external recommendations\<close>

record etf =
  etf_code :: string
  etf_name :: string
  etf_type :: string
  etf_price :: pyfloat
  change_5d :: pyfloat
  amount :: pyfloat
  etf_index :: string

record etf_row =
  er_code :: string
  er_name :: string
  er_price :: cell
  er_change :: cell
  er_amount :: cell
  er_market :: string

definition get_mock_etfs :: "etf list" where
  "get_mock_etfs =
     [\<lparr>etf_code = ''159915'', etf_name = ''Chuangyeban ETF'', etf_type = ''broad ETF'',
       etf_price = Fin 2.35, change_5d = Fin 8.5, amount = Fin 125.6, etf_index = ''Chuangyeban index''\<rparr>,
      \<lparr>etf_code = ''512480'', etf_name = ''Semiconductor ETF'', etf_type = ''theme ETF'',
       etf_price = Fin 1.28, change_5d = Fin 12.5, amount = Fin 85.2, etf_index = ''Semiconductor''\<rparr>]"

definition get_mock_external_stocks :: "stock list" where
  "get_mock_external_stocks =
     [\<lparr>code = ''600519'', name = ''Guizhou Maotai'', source = ''broker'', data_source = ''sample'',
       period = ''medium'', priority = 3, mainline_score = Fin 0, change_pct = Fin 0,
       entry_reason = ReasonText ''CITIC Securities monthly pick'', sector = [],
       tech_score = None\<rparr>]"

text \<open>
  The body of the loop of \<^verbatim>\<open>ETFScanWorker.run\<close> over the first 30 rows of the sorted
  frame: the amount is converted first, and a row under 1 (in units of 100M)
  is skipped before its price and change are converted.
\<close>

definition etf_of_row :: "runtime \<Rightarrow> etf_row \<Rightarrow> error + etf option" where
  "etf_of_row rt row =
     (case float_or (Fin 0) (er_amount row) of Inl e \<Rightarrow> Inl e | Inr a \<Rightarrow>
        (let amt = fdiv (round_double rt) a (Fin 100000000) in
         if amt < Fin 1 then Inr None
         else
           case float_or (Fin 0) (er_price row) of Inl e \<Rightarrow> Inl e | Inr price \<Rightarrow>
           case float_or (Fin 0) (er_change row) of Inl e \<Rightarrow> Inl e | Inr change \<Rightarrow>
             Inr (Some \<lparr>etf_code = er_code row, etf_name = er_name row, etf_type = ''ETF'',
                    etf_price = price, change_5d = change, amount = amt,
                    etf_index = er_market row\<rparr>)))"

fun etf_rows :: "runtime \<Rightarrow> etf_row list \<Rightarrow> error + etf list" where
  "etf_rows rt [] = Inr []"
| "etf_rows rt (row # rows) =
     (case etf_of_row rt row of
        Inl e \<Rightarrow> Inl e
      | Inr None \<Rightarrow> etf_rows rt rows
      | Inr (Some x) \<Rightarrow>
          (case etf_rows rt rows of Inl e \<Rightarrow> Inl e | Inr xs \<Rightarrow> Inr (x # xs)))"

text \<open>
  \<^verbatim>\<open>ETFScanWorker.run\<close>. Its arguments are what \<^verbatim>\<open>ak.fund_etf_spot_em()\<close> did and
  the frame method \<^verbatim>\<open>sort_values\<close> of the data library, which is not part of
  this repository.
\<close>

definition ETFScanWorker_run ::
  "runtime \<Rightarrow> error + etf_row list option \<Rightarrow> (etf_row list \<Rightarrow> error + etf_row list) \<Rightarrow>
     etf emission" where
  "ETFScanWorker_run rt ak sort_values =
     (case ak of
        Inl (Exception m) \<Rightarrow> \<lparr>logged = [(Error, m)], emitted = Finished get_mock_etfs ''mock''\<rparr>
      | Inr None \<Rightarrow> \<lparr>logged = [], emitted = Finished get_mock_etfs ''mock''\<rparr>
      | Inr (Some rows) \<Rightarrow>
          if rows = [] then \<lparr>logged = [], emitted = Finished get_mock_etfs ''mock''\<rparr>
          else
            (case sort_values rows of
               Inl (Exception m) \<Rightarrow>
                 \<lparr>logged = [(Error, m)], emitted = Finished get_mock_etfs ''mock''\<rparr>
             | Inr df_sorted \<Rightarrow>
                 (case etf_rows rt (take 30 df_sorted) of
                    Inl (Exception m) \<Rightarrow>
                      \<lparr>logged = [(Error, m)], emitted = Finished get_mock_etfs ''mock''\<rparr>
                  | Inr etfs \<Rightarrow>
                      \<lparr>logged = [], emitted = Finished (take 20 etfs) ''AKShare ETF''\<rparr>)))"

text \<open>A stock of the pool that \<^verbatim>\<open>ExternalDataParser.parse_all\<close> returns.\<close>

record pool_stock =
  ps_code :: string
  ps_name :: string
  ps_source :: string
  ps_period :: string
  ps_priority :: int
  ps_entry_reason :: string

definition ExternalParseWorker_run :: "error + pool_stock list option \<Rightarrow> stock emission" where
  "ExternalParseWorker_run parse_all =
     (case parse_all of
        Inl (Exception m) \<Rightarrow>
          \<lparr>logged = [(Debug, m)], emitted = Finished get_mock_external_stocks ''sample''\<rparr>
      | Inr None \<Rightarrow> \<lparr>logged = [], emitted = Finished get_mock_external_stocks ''sample''\<rparr>
      | Inr (Some pool) \<Rightarrow>
          if pool = [] then
            \<lparr>logged = [], emitted = Finished get_mock_external_stocks ''sample''\<rparr>
          else
            \<lparr>logged = [],
             emitted = Finished
               (map (\<lambda>st. \<lparr>code = ps_code st, name = ps_name st, source = ps_source st,
                   data_source = ''external file'', period = ps_period st,
                   priority = ps_priority st, mainline_score = Fin 0, change_pct = Fin 0,
                   entry_reason = ReasonText (ps_entry_reason st), sector = [],
                   tech_score = None\<rparr>) pool)
               ''external file''\<rparr>)"


section \<open>Factor filter\<close>

text \<open>
  \<^verbatim>\<open>FactorFilterWorker\<close> of \<^verbatim>\<open>factor_filter_tab.py\<close>. A candidate is one dict of
  \<^verbatim>\<open>self.mainlines\<close>; an empty \<^verbatim>\<open>jq_code\<close> stands for a missing one.
\<close>

record candidate =
  cand_mainline :: string
  cand_mainline_score :: pyfloat
  cand_jq_code :: string

record factor_worker =
  fw_mainlines :: "candidate list"
  fw_period :: string
  fw_top_n :: int

text \<open>
  What the worker emits through \<^verbatim>\<open>finished\<close>: the signals of the factor
  collaborator, or plain dicts in the simplified mode.
\<close>

datatype factor_item =
    StockSignal string string
  | PlainResult string string pyfloat

text \<open>
  The collaborators of one run: the import of the data SDK, the look-up of the
  available date, the two constituent queries, whether the factor integration
  could be imported, and the factor computation, which returns its signals
  (of a signal, the code and the theme it arrives with are kept).
\<close>

record factor_env =
  jq_import :: "error + unit"
  available_date :: "error + unit"
  fe_concept_stocks :: "string \<Rightarrow> error + string list"
  fe_industry_stocks :: "string \<Rightarrow> error + string list"
  factor_integration_available :: bool
  process_candidate_pool ::
    "string list \<Rightarrow> (string \<rightharpoonup> pyfloat) \<Rightarrow> int \<Rightarrow> error + (string \<times> string) list"

text \<open>
  The first loop (lines 192 to 204) over the set of codes: a failed query is
  logged and the code is left without stocks. The set is walked in the order
  of first occurrence here; only the order of the log records depends on it.
\<close>

definition fetch_step ::
  "factor_env \<Rightarrow> string \<Rightarrow> log \<times> (string \<rightharpoonup> string list) \<Rightarrow> log \<times> (string \<rightharpoonup> string list)" where
  "fetch_step env jq_code st =
     (case (if take 2 jq_code = ''SC'' then fe_concept_stocks env jq_code
            else fe_industry_stocks env jq_code) of
        Inl (Exception m) \<Rightarrow> (fst st @ [(Warning, m)], snd st)
      | Inr stocks \<Rightarrow>
          if stocks \<noteq> [] then (fst st, (snd st)(jq_code \<mapsto> take 20 stocks)) else st)"

text \<open>The second loop (lines 210 to 223): the codes in the order they are first met.\<close>

definition merge_code ::
  "candidate \<Rightarrow> string \<Rightarrow> (string \<rightharpoonup> candidate) \<times> string list \<Rightarrow> (string \<rightharpoonup> candidate) \<times> string list" where
  "merge_code ml cd st =
     (if fst st cd = None then ((fst st)(cd \<mapsto> ml), snd st @ [cd]) else st)"

definition merge_mainline ::
  "(string \<rightharpoonup> string list) \<Rightarrow> candidate \<Rightarrow> (string \<rightharpoonup> candidate) \<times> string list \<Rightarrow>
     (string \<rightharpoonup> candidate) \<times> string list" where
  "merge_mainline stocks_by_mainline ml st =
     (case stocks_by_mainline (cand_jq_code ml) of
        None \<Rightarrow> st
      | Some codes \<Rightarrow> fold (merge_code ml) codes st)"

text \<open>
  The two loops together: the log of the failed queries, the theme each stock
  was first met under, and the stocks in the order they were first met.
\<close>

definition collect_stocks ::
  "factor_worker \<Rightarrow> factor_env \<Rightarrow> log \<times> (string \<rightharpoonup> candidate) \<times> string list" where
  "collect_stocks self env =
     (let jq_codes =
            rev (remdups (rev (filter (\<lambda>c. c \<noteq> []) (map cand_jq_code (fw_mainlines self)))));
          (l1, stocks_by_mainline) = fold (fetch_step env) jq_codes ([], Map.empty);
          (stock_mainline_map, all_stock_codes) =
            fold (merge_mainline stocks_by_mainline) (fw_mainlines self) (Map.empty, [])
      in (l1, stock_mainline_map, all_stock_codes))"

text \<open>
  \<^verbatim>\<open>FactorFilterWorker.run\<close>: the whole body is one \<^verbatim>\<open>try\<close> whose handler logs the
  exception and emits \<^verbatim>\<open>error\<close> with its text.
\<close>

definition FactorFilterWorker_run :: "factor_worker \<Rightarrow> factor_env \<Rightarrow> factor_item emission" where
  "FactorFilterWorker_run self env =
     (case jq_import env of
        Inl (Exception m) \<Rightarrow> \<lparr>logged = [(Error, m)], emitted = Failed m\<rparr>
      | Inr u \<Rightarrow>
     (case available_date env of
        Inl (Exception m) \<Rightarrow> \<lparr>logged = [(Error, m)], emitted = Failed m\<rparr>
      | Inr u \<Rightarrow>
          (let (l1, stock_mainline_map, all_stock_codes) = collect_stocks self env
           in if all_stock_codes = [] then
                \<lparr>logged = l1, emitted = Failed ''no stocks were obtained''\<rparr>
              else if factor_integration_available env then
                (let mainline_scores =
                       (\<lambda>cd. map_option cand_mainline_score (stock_mainline_map cd))
                 in case process_candidate_pool env (take 100 all_stock_codes) mainline_scores
                           (fw_top_n self) of
                      Inl (Exception m) \<Rightarrow> \<lparr>logged = l1 @ [(Error, m)], emitted = Failed m\<rparr>
                    | Inr signals \<Rightarrow>
                        \<lparr>logged = l1,
                         emitted = Finished
                           (map (\<lambda>(cd, theme). StockSignal cd
                                  (case stock_mainline_map cd of
                                     None \<Rightarrow> theme
                                   | Some ml \<Rightarrow> cand_mainline ml)) signals) []\<rparr>)
              else
                \<lparr>logged = l1,
                 emitted = Finished
                   (map (\<lambda>cd. case stock_mainline_map cd of
                                 None \<Rightarrow> PlainResult cd [] (Fin 0)
                               | Some ml \<Rightarrow> PlainResult cd (cand_mainline ml) (cand_mainline_score ml))
                      (py_prefix (fw_top_n self) all_stock_codes)) []\<rparr>)))"

section \<open>The panel\<close>

text \<open>
  The state of \<^verbatim>\<open>StockPoolPanel\<close> that the scans read and write. A table is the
  list of records it was filled with (column 1 shows the code). The dict
  \<^verbatim>\<open>self.workers\<close> and the attribute \<^verbatim>\<open>self.mainline_worker\<close> are the map
  \<open>workers\<close> for the workers of the overview; a worker is \<^const>\<open>None\<close> before it
  is created, \<open>Running\<close> from \<^verbatim>\<open>start()\<close> until its completion signal is
  delivered (the signal is the last statement its \<^verbatim>\<open>run\<close> executes), and
  \<open>Returned\<close> after. The workers of the single tabs are a list, since a second
  click replaces the dict entry while the first worker is still alive.
  \<open>started\<close> and \<open>handled\<close> are history variables: the overview workers in the
  order of their \<^verbatim>\<open>start()\<close> calls, and in the order their completion handlers
  ran. Labels, colours and the progress bar are left out.
\<close>

datatype worker_key = OverviewMainline | OverviewTech | OverviewEtf | OverviewExternal | Identification

datatype tab = MainlineTab | TechTab | EtfTab | ExternalTab

datatype activity = Running | Returned

record panel =
  all_stocks :: "stock list"
  overview_table :: "stock list"
  mainline_table :: "stock list"
  tech_table :: "stock list"
  external_table :: "stock list"
  etf_table :: "etf list"
  scan_all_btn_enabled :: bool
  stat_mainline :: nat
  stat_tech :: nat
  stat_etf :: nat
  stat_external :: nat
  code_preview :: string
  workers :: "worker_key \<rightharpoonup> activity"
  single_workers :: "tab list"
  started :: "worker_key list"
  handled :: "worker_key list"

definition init_panel :: panel where
  "init_panel = \<lparr>all_stocks = [], overview_table = [], mainline_table = [], tech_table = [],
     external_table = [], etf_table = [], scan_all_btn_enabled = True, stat_mainline = 0,
     stat_tech = 0, stat_etf = 0, stat_external = 0, code_preview = [],
     workers = Map.empty, single_workers = [], started = [], handled = []\<rparr>"

definition start_worker :: "worker_key \<Rightarrow> panel \<Rightarrow> panel" where
  "start_worker k p = p\<lparr>workers := (workers p)(k \<mapsto> Running), started := started p @ [k]\<rparr>"

definition start_mainline_scan :: "panel \<Rightarrow> panel" where
  "start_mainline_scan p = start_worker OverviewMainline p"

definition start_tech_scan :: "panel \<Rightarrow> panel" where
  "start_tech_scan p = start_worker OverviewTech p"

definition start_etf_scan :: "panel \<Rightarrow> panel" where
  "start_etf_scan p = start_worker OverviewEtf p"

definition start_external_scan :: "panel \<Rightarrow> panel" where
  "start_external_scan p = start_worker OverviewExternal p"

definition do_scan_all :: "panel \<Rightarrow> panel" where
  "do_scan_all p =
     start_mainline_scan (p\<lparr>overview_table := [], all_stocks := [], scan_all_btn_enabled := False\<rparr>)"

definition run_mainline_identification :: "panel \<Rightarrow> panel" where
  "run_mainline_identification p =
     p\<lparr>scan_all_btn_enabled := False, workers := (workers p)(Identification \<mapsto> Running)\<rparr>"

definition on_mainline_identification_done :: "panel \<Rightarrow> panel" where
  "on_mainline_identification_done p = do_scan_all p"

definition on_mainline_identification_error :: "panel \<Rightarrow> panel" where
  "on_mainline_identification_error p = do_scan_all (p\<lparr>scan_all_btn_enabled := True\<rparr>)"

text \<open>
  \<^verbatim>\<open>_scan_all\<close>: \<open>data_exists\<close> is what \<^verbatim>\<open>_check_mainline_data\<close> found and
  \<open>reply_yes\<close> the answer to the question asked when it found nothing.
\<close>

definition scan_all :: "bool \<Rightarrow> bool \<Rightarrow> panel \<Rightarrow> panel" where
  "scan_all data_exists reply_yes p =
     (if \<not> data_exists \<and> reply_yes then run_mainline_identification p else do_scan_all p)"

definition on_overview_mainline_done :: "stock list \<Rightarrow> string \<Rightarrow> panel \<Rightarrow> panel" where
  "on_overview_mainline_done stocks src p =
     start_tech_scan (p\<lparr>all_stocks := all_stocks p @ stocks, stat_mainline := length stocks\<rparr>)"

definition on_overview_tech_done :: "stock list \<Rightarrow> string \<Rightarrow> panel \<Rightarrow> panel" where
  "on_overview_tech_done stocks src p =
     start_etf_scan (p\<lparr>all_stocks := all_stocks p @ stocks, stat_tech := length stocks\<rparr>)"

definition etf_to_stock :: "string \<Rightarrow> etf \<Rightarrow> stock" where
  "etf_to_stock src e =
     \<lparr>code = etf_code e, name = etf_name e, source = ''etf'', data_source = src,
      period = ''medium'', priority = 3, mainline_score = Fin 0, change_pct = change_5d e,
      entry_reason = EtfRotation (amount e), sector = [], tech_score = None\<rparr>"

definition on_overview_etf_done :: "etf list \<Rightarrow> string \<Rightarrow> panel \<Rightarrow> panel" where
  "on_overview_etf_done etfs src p =
     start_external_scan
       (p\<lparr>all_stocks := all_stocks p @ map (etf_to_stock src) etfs, stat_etf := length etfs\<rparr>)"

definition on_overview_external_done :: "runtime \<Rightarrow> stock list \<Rightarrow> string \<Rightarrow> panel \<Rightarrow> panel" where
  "on_overview_external_done rt stocks src p =
     p\<lparr>all_stocks := all_stocks p @ stocks, stat_external := length stocks,
       overview_table := take 50 (overview_unique rt (all_stocks p @ stocks)),
       scan_all_btn_enabled := True\<rparr>"

text \<open>
  \<^verbatim>\<open>_scan_single\<close> and the handlers it connects. The mainline tab refuses to scan
  when no theme data exists.
\<close>

definition scan_single :: "tab \<Rightarrow> bool \<Rightarrow> panel \<Rightarrow> panel" where
  "scan_single t data_exists p =
     (case t of
        MainlineTab \<Rightarrow>
          if \<not> data_exists then p
          else p\<lparr>mainline_table := [], single_workers := single_workers p @ [MainlineTab]\<rparr>
      | TechTab \<Rightarrow> p\<lparr>tech_table := [], single_workers := single_workers p @ [TechTab]\<rparr>
      | EtfTab \<Rightarrow> p\<lparr>etf_table := [], single_workers := single_workers p @ [EtfTab]\<rparr>
      | ExternalTab \<Rightarrow>
          p\<lparr>external_table := [], single_workers := single_workers p @ [ExternalTab]\<rparr>)"

definition on_single_done :: "tab \<Rightarrow> stock list \<Rightarrow> panel \<Rightarrow> panel" where
  "on_single_done t stocks p =
     (case t of
        MainlineTab \<Rightarrow> p\<lparr>mainline_table := stocks\<rparr>
      | TechTab \<Rightarrow> p\<lparr>tech_table := stocks\<rparr>
      | EtfTab \<Rightarrow> p
      | ExternalTab \<Rightarrow> p\<lparr>external_table := stocks\<rparr>)"

definition on_etf_single_done :: "etf list \<Rightarrow> string \<Rightarrow> panel \<Rightarrow> panel" where
  "on_etf_single_done etfs src p = p\<lparr>etf_table := etfs\<rparr>"

text \<open>
  What the event loop of the user interface can hand to the panel: a click, or
  the completion signal of a worker. A click on the disabled button does not
  reach \<^verbatim>\<open>_scan_all\<close>, and a signal arrives only from a worker that was
  started and has not delivered one yet; such an input is refused with
  \<^const>\<open>None\<close>.
\<close>

datatype input =
    ClickScanAll bool bool
  | ClickSingle tab bool
  | IdentificationFinished
  | IdentificationError string
  | MainlineFinished "stock list" string
  | TechFinished "stock list" string
  | EtfFinished "etf list" string
  | ExternalFinished "stock list" string
  | SingleFinished tab "stock list" string
  | SingleEtfFinished "etf list" string

definition returned :: "worker_key \<Rightarrow> panel \<Rightarrow> panel" where
  "returned k p = p\<lparr>workers := (workers p)(k \<mapsto> Returned)\<rparr>"

definition handling :: "worker_key \<Rightarrow> panel \<Rightarrow> panel" where
  "handling k p = p\<lparr>workers := (workers p)(k \<mapsto> Returned), handled := handled p @ [k]\<rparr>"

definition panel_step :: "runtime \<Rightarrow> input \<Rightarrow> panel \<Rightarrow> panel option" where
  "panel_step rt i p =
     (case i of
        ClickScanAll data_exists reply_yes \<Rightarrow>
          if scan_all_btn_enabled p then Some (scan_all data_exists reply_yes p) else None
      | ClickSingle t data_exists \<Rightarrow> Some (scan_single t data_exists p)
      | IdentificationFinished \<Rightarrow>
          if workers p Identification = Some Running
          then Some (on_mainline_identification_done (returned Identification p)) else None
      | IdentificationError m \<Rightarrow>
          if workers p Identification = Some Running
          then Some (on_mainline_identification_error (returned Identification p)) else None
      | MainlineFinished stocks src \<Rightarrow>
          if workers p OverviewMainline = Some Running
          then Some (on_overview_mainline_done stocks src (handling OverviewMainline p)) else None
      | TechFinished stocks src \<Rightarrow>
          if workers p OverviewTech = Some Running
          then Some (on_overview_tech_done stocks src (handling OverviewTech p)) else None
      | EtfFinished etfs src \<Rightarrow>
          if workers p OverviewEtf = Some Running
          then Some (on_overview_etf_done etfs src (handling OverviewEtf p)) else None
      | ExternalFinished stocks src \<Rightarrow>
          if workers p OverviewExternal = Some Running
          then Some (on_overview_external_done rt stocks src (handling OverviewExternal p)) else None
      | SingleFinished t stocks src \<Rightarrow>
          if t \<in> set (single_workers p) \<and> t \<noteq> EtfTab
          then Some (on_single_done t stocks (p\<lparr>single_workers := remove1 t (single_workers p)\<rparr>))
          else None
      | SingleEtfFinished etfs src \<Rightarrow>
          if EtfTab \<in> set (single_workers p)
          then Some (on_etf_single_done etfs src
                       (p\<lparr>single_workers := remove1 EtfTab (single_workers p)\<rparr>))
          else None)"

fun panel_run :: "runtime \<Rightarrow> input list \<Rightarrow> panel \<Rightarrow> panel option" where
  "panel_run rt [] p = Some p"
| "panel_run rt (i # is) p =
     (case panel_step rt i p of None \<Rightarrow> None | Some p' \<Rightarrow> panel_run rt is p')"

definition overview_chain :: "worker_key list" where
  "overview_chain = [OverviewMainline, OverviewTech, OverviewEtf, OverviewExternal]"

definition running_overview :: "panel \<Rightarrow> worker_key list" where
  "running_overview p = filter (\<lambda>k. workers p k = Some Running) overview_chain"

text \<open>
  The number of background workers that are running: the workers of the
  overview, the worker of the theme identification and the workers of the
  single tabs.
\<close>

definition running_workers :: "panel \<Rightarrow> nat" where
  "running_workers p =
     length (filter (\<lambda>k. workers p k = Some Running) (overview_chain @ [Identification]))
     + length (single_workers p)"

section \<open>Strategy script\<close>

text \<open>
  \<^verbatim>\<open>StockPoolPanel._generate_code\<close>. The codes are the texts of column 1 of the
  mainline, technical and external tables, collected in a set. \<^verbatim>\<open>list(codes)\<close>
  walks the set in an order that Python does not fix, so the order is an
  argument, as are \<^verbatim>\<open>repr\<close> on strings and the two texts read from the clock:
  the time stamp written into the script and the day (\<^verbatim>\<open>%Y%m%d\<close>) of the file
  name. The file system is a map from paths to contents; a write is taken to
  succeed. The two dialog boxes are left out.
\<close>

record clock =
  time_stamp :: string
  day :: string

definition collected_codes :: "panel \<Rightarrow> string set" where
  "collected_codes p = set (map code (mainline_table p @ tech_table p @ external_table p))"

text \<open>The decimal text of a natural number, as \<^verbatim>\<open>str\<close> gives it.\<close>

fun decimal :: "nat \<Rightarrow> string" where
  "decimal n =
     (if n < 10 then [char_of (48 + n)] else decimal (n div 10) @ [char_of (48 + n mod 10)])"

fun join_comma :: "string list \<Rightarrow> string" where
  "join_comma [] = []"
| "join_comma [x] = x"
| "join_comma (x # y # ys) = x @ '', '' @ join_comma (y # ys)"

definition list_repr :: "(string \<Rightarrow> string) \<Rightarrow> string list \<Rightarrow> string" where
  "list_repr repr xs = ''['' @ join_comma (map repr xs) @ '']''"

definition unlines :: "string list \<Rightarrow> string" where
  "unlines ls = concat (map (\<lambda>l. l @ [CHR 0x0A]) ls)"

definition strategy_script :: "(string \<Rightarrow> string) \<Rightarrow> string \<Rightarrow> string list \<Rightarrow> string" where
  "strategy_script repr stamp code_list =
     unlines
      [''# -*- coding: utf-8 -*-'',
       [CHR 0x22, CHR 0x22, CHR 0x22],
       ''Taorui Quant - stock pool strategy'',
       ''generated at: '' @ stamp,
       ''number of stocks: '' @ decimal (length code_list),
       [CHR 0x22, CHR 0x22, CHR 0x22],
       [],
       ''STOCK_POOL = '' @ list_repr repr code_list,
       [],
       ''def initialize(context):'',
       ''    set_benchmark('000300.XSHG')'',
       ''    run_monthly(rebalance, 1, time='open')'',
       [],
       ''def rebalance(context):'',
       ''    stocks = STOCK_POOL'',
       ''    for stock in list(context.portfolio.positions.keys()):'',
       ''        if stock not in stocks:'',
       ''            order_target(stock, 0)'',
       ''    '',
       ''    if len(stocks) > 0:'',
       ''        weight = 1.0 / len(stocks)'',
       ''        for stock in stocks:'',
       ''            order_target_value(stock, context.portfolio.total_value * weight)'']"

definition strategy_path :: "string \<Rightarrow> string" where
  "strategy_path d = ''~/.local/share/trquant/strategies/ptrade/pool_strategy_'' @ d @ ''.py''"

definition generate_code ::
  "(string set \<Rightarrow> string list) \<Rightarrow> (string \<Rightarrow> string) \<Rightarrow> clock \<Rightarrow>
     panel \<times> (string \<rightharpoonup> string) \<Rightarrow> panel \<times> (string \<rightharpoonup> string)" where
  "generate_code set_order repr clk st =
     (let p = fst st; files = snd st; codes = collected_codes p in
      if codes = {} then (p, files)
      else
        (let code_list = take 20 (set_order codes);
             script = strategy_script repr (time_stamp clk) code_list
         in (p\<lparr>code_preview := script\<rparr>, files(strategy_path (day clk) \<mapsto> script))))"


section \<open>The specification's wording of the merge\<close>

text \<open>
  The identity of a record, the removal of duplicate identities in which the
  first record seen wins, and the merge of the specification: concatenate the
  lists, drop the duplicates, sort stably by priority (ascending) and score
  (descending), truncate. The order of the scores is that of the floats
  without NaN, which \<^const>\<open>rank\<close> carries to a linear order.
\<close>

definition spec_identity :: "stock \<Rightarrow> string" where
  "spec_identity s = (if code s \<noteq> [] then code s else name s)"

fun keep_first :: "('a \<Rightarrow> 'k) \<Rightarrow> 'a list \<Rightarrow> 'a list" where
  "keep_first k [] = []"
| "keep_first k (x # xs) = x # keep_first k (filter (\<lambda>y. k y \<noteq> k x) xs)"




section \<open>Invariant of the overview chain\<close>

text \<open>
  \<open>phase n k\<close>: \<open>n\<close> overview scans are complete and, of the current one, the
  first \<open>k\<close> workers were started; worker \<open>k\<close> is the only one running and the
  handlers of the workers before it have run. \<open>k = 0\<close> is the panel at rest (or
  waiting for the theme identification).
\<close>

definition cycles :: "nat \<Rightarrow> worker_key list" where
  "cycles n = concat (replicate n overview_chain)"

definition is_running :: "panel \<Rightarrow> worker_key \<Rightarrow> bool" where
  "is_running p k \<longleftrightarrow> workers p k = Some Running"

definition phase :: "nat \<Rightarrow> nat \<Rightarrow> panel \<Rightarrow> bool" where
  "phase n k p \<longleftrightarrow>
     is_running p OverviewMainline = (k = 1) \<and> is_running p OverviewTech = (k = 2)
     \<and> is_running p OverviewEtf = (k = 3) \<and> is_running p OverviewExternal = (k = 4)
     \<and> k \<le> 4
     \<and> started p = cycles n @ take k overview_chain
     \<and> handled p = cycles n @ take (k - 1) overview_chain
     \<and> (if k = 0 then scan_all_btn_enabled p \<longleftrightarrow> \<not> is_running p Identification
         else \<not> scan_all_btn_enabled p \<and> \<not> is_running p Identification)"

definition chain_inv :: "panel \<Rightarrow> bool" where
  "chain_inv p \<longleftrightarrow> (\<exists>n k. phase n k p)"



section \<open>Concrete inputs\<close>

text \<open>
  A runtime whose arithmetic does not round and whose sorter is the insertion
  sort. On the inputs below double arithmetic does not round either.
\<close>

definition insertion_sorter :: "stock sorter" where
  "insertion_sorter = Sorter insertion_sort"

definition exact_runtime :: runtime where
  "exact_runtime = \<lparr>round_double = Fin, nan_sort = insertion_sorter\<rparr>"

text \<open>Snapshot rows on which the theorems below are exercised.\<close>

definition row_alpha :: spot_row where
  "row_alpha = \<lparr>row_name = ''Alpha'', row_code = ''000001'', row_change = Num (Fin 10),
     row_volume_ratio = Absent, row_turnover = Num (Fin 6), row_total_cap = Num (Fin 10000000000),
     row_price = Absent\<rparr>"

definition row_st :: spot_row where
  "row_st = \<lparr>row_name = ''ST Beta'', row_code = ''000002'', row_change = Num (Fin 10),
     row_volume_ratio = Num (Fin 3), row_turnover = Num (Fin 6), row_total_cap = Num (Fin 10000000000),
     row_price = Absent\<rparr>"

text \<open>A row with a volume signal and a limit-up whose capitalisation is missing.\<close>

definition row_nocap :: spot_row where
  "row_nocap = \<lparr>row_name = ''Delta'', row_code = ''000004'', row_change = Num (Fin 10),
     row_volume_ratio = Num (Fin 3), row_turnover = Absent, row_total_cap = Num NaN,
     row_price = Absent\<rparr>"

definition stock_delta :: stock where
  "stock_delta = \<lparr>code = ''000004'', name = ''Delta'', source = ''tech_breakout'',
     data_source = ''AKShare realtime'', period = ''short'', priority = 2, mainline_score = Fin 0,
     change_pct = Fin 10, entry_reason = Breakout [LimitUp, Volume3], sector = [],
     tech_score = Some 65\<rparr>"

definition stock_alpha :: stock where
  "stock_alpha = \<lparr>code = ''000001'', name = ''Alpha'', source = ''tech_breakout'',
     data_source = ''AKShare realtime'', period = ''short'', priority = 2, mainline_score = Fin 0,
     change_pct = Fin 10, entry_reason = Breakout [LimitUp, ActiveTurnover], sector = [],
     tech_score = Some 50\<rparr>"

text \<open>A theme, a worker built with the defaults of its constructor, and an environment in which every call succeeds.\<close>

definition theme_ai :: mainline where
  "theme_ai = \<lparr>ml_name = ''AI'', ml_jqdata_mapped = True, ml_jqdata_code = ''SC0001'',
     ml_jqdata_name = ''AI concept'', ml_jqdata_type = ''concept'', ml_total_score = Score (Fin 80),
     ml_leader_stock = ''Leader One'', ml_leader_change = Fin 4\<rparr>"

definition default_worker :: mainline_worker where
  "default_worker = \<lparr>worker_period = ''medium'', max_mainlines = 10, max_stocks_per_mainline = 5\<rparr>"

definition env_ok :: jq_env where
  "env_ok = \<lparr>jq_config = Inr True, jq_authenticate = Inr True, jq_permission = Inr (),
     mongo_connect = Inr (), mongo_latest = Inr (Some [theme_ai]), file_exists = False,
     file_load = Inr ([], []), mapper_create = Inr (), map_mainline = (\<lambda>n. Inr None),
     concept_stocks = (\<lambda>c. Inr [''000001.XSHE'']), industry_stocks = (\<lambda>c. Inr []),
     spot = Inr (Some [row_alpha]), display_name = (\<lambda>c. Inr (Some ''Alpha'')),
     get_price = (\<lambda>c. Inr None), stop_seen = (\<lambda>i. False)\<rparr>"

definition leader_one :: stock where
  "leader_one = \<lparr>code = [], name = ''Leader One'', source = ''mainline'',
     data_source = ''leader'', period = ''medium'', priority = 1, mainline_score = Fin 80,
     change_pct = Fin 4, entry_reason = LeaderOf ''AI'', sector = ''AI'', tech_score = None\<rparr>"

definition constituent_alpha :: stock where
  "constituent_alpha = \<lparr>code = ''000001'', name = ''Alpha'', source = ''mainline'',
     data_source = ''JQData+AKShare'', period = ''medium'', priority = 2, mainline_score = Fin 80,
     change_pct = Fin 10, entry_reason = ConstituentOf ''AI'', sector = ''AI'', tech_score = None\<rparr>"

text \<open>Inputs to the panel: a scan of everything, a scan of one tab beside it, and two completions.\<close>

definition scan_inputs :: "input list" where
  "scan_inputs = [ClickScanAll True False, ClickSingle TechTab True,
     MainlineFinished [constituent_alpha] ''MongoDB + JQData'',
     TechFinished [stock_alpha] ''AKShare realtime'']"







text \<open>
  Inputs on which a collaborator fails: a snapshot row with text in a numeric
  column, a theme whose score is not a number, a candidate list and a factor
  environment in which the import of the data SDK raises.
\<close>

definition row_junk :: spot_row where
  "row_junk = \<lparr>row_name = ''Gamma'', row_code = ''000003'', row_change = Junk ''-'',
     row_volume_ratio = Num (Fin 2), row_turnover = Num (Fin 6), row_total_cap = Num (Fin 10000000000),
     row_price = Absent\<rparr>"

definition theme_bad :: mainline where
  "theme_bad = theme_ai\<lparr>ml_total_score := BadScore\<rparr>"

definition factor_worker_default :: factor_worker where
  "factor_worker_default =
     \<lparr>fw_mainlines =
        [\<lparr>cand_mainline = ''AI'', cand_mainline_score = Fin 85, cand_jq_code = ''SC0363''\<rparr>,
         \<lparr>cand_mainline = ''New Energy'', cand_mainline_score = Fin 80, cand_jq_code = ''SC0066''\<rparr>,
         \<lparr>cand_mainline = ''Semiconductor'', cand_mainline_score = Fin 78, cand_jq_code = ''SC0353''\<rparr>],
      fw_period = ''medium'', fw_top_n = 30\<rparr>"

definition factor_env_no_sdk :: factor_env where
  "factor_env_no_sdk =
     \<lparr>jq_import = Inl (Exception ''No module named jqdatasdk''), available_date = Inr (),
      fe_concept_stocks = (\<lambda>c. Inr [''000001.XSHE'']), fe_industry_stocks = (\<lambda>c. Inr []),
      factor_integration_available = False,
      process_candidate_pool = (\<lambda>stocks scores n. Inr [])\<rparr>"

text \<open>An ETF row with text in its amount, and a sort that leaves the frame as it is.\<close>

definition etf_junk :: etf_row where
  "etf_junk = \<lparr>er_code = ''159915'', er_name = ''Chuangyeban ETF'', er_price = Num (Fin 2),
     er_change = Num (Fin 1), er_amount = Junk ''-'', er_market = ''SZ''\<rparr>"

definition sort_unchanged :: "etf_row list \<Rightarrow> error + etf_row list" where
  "sort_unchanged rows = Inr rows"

text \<open>The environment in which every look-up of a display name times out.\<close>

definition env_silent :: jq_env where
  "env_silent = env_ok\<lparr>display_name := \<lambda>c. Inl (Exception ''timeout'')\<rparr>"

text \<open>
  A panel whose technical table holds one record, an order of the set of
  codes, a quoting function in the place of \<^verbatim>\<open>repr\<close>, and two days.
\<close>

definition panel_with_codes :: panel where
  "panel_with_codes = init_panel\<lparr>tech_table := [stock_alpha]\<rparr>"

definition first_order :: "string set \<Rightarrow> string list" where
  "first_order S = (if S = {''000001''} then [''000001''] else [])"

definition quote_repr :: "string \<Rightarrow> string" where
  "quote_repr s = [CHR 0x27] @ s @ [CHR 0x27]"

definition clock_day1 :: clock where
  "clock_day1 = \<lparr>time_stamp = ''2024-01-01 09:30:00'', day = ''20240101''\<rparr>"

definition clock_day2 :: clock where
  "clock_day2 = \<lparr>time_stamp = ''2024-01-02 09:30:00'', day = ''20240102''\<rparr>"


section \<open>Facts about floats and sorting\<close>

lemma rank_inj: "rank a = rank b \<longleftrightarrow> a = b"
  by (cases a; cases b) simp_all

lemma fin_compare [simp]:
  "Fin a < Fin b \<longleftrightarrow> a < b"
  "Fin a \<le> Fin b \<longleftrightarrow> a \<le> b"
  by (simp_all add: less_pyfloat_def less_eq_pyfloat_def)

lemma nan_compare [simp]:
  "\<not> NaN < x" "\<not> x < NaN" "\<not> NaN \<le> x" "\<not> x \<le> NaN"
  by (simp_all add: less_pyfloat_def less_eq_pyfloat_def)

lemma less_pyfloat_asym: "a < b \<Longrightarrow> \<not> b < (a :: pyfloat)"
  by (auto simp: less_pyfloat_def)

lemma not_less_pyfloat: "a \<noteq> NaN \<Longrightarrow> b \<noteq> NaN \<Longrightarrow> \<not> a < b \<longleftrightarrow> b \<le> (a :: pyfloat)"
  by (auto simp: less_pyfloat_def less_eq_pyfloat_def)

lemma uminus_nan [simp]: "- x = NaN \<longleftrightarrow> x = NaN" "NaN = - x \<longleftrightarrow> x = NaN"
  by (cases x; simp)+

lemma fdiv_nan [simp]: "fdiv rd NaN b = NaN"
  by (cases b) simp_all

lemma key_lt_asym: "key_lt a b \<Longrightarrow> \<not> key_lt b a"
proof (induction a b rule: key_lt.induct)
  case (4 a as b bs)
  then show ?case
    by (auto simp: less_pyfloat_def split: if_splits)
qed simp_all

lemma key_lt_rank:
  "comparable a \<Longrightarrow> comparable b \<Longrightarrow> key_lt a b \<longleftrightarrow> map rank a < map rank b"
proof (induction a b rule: key_lt.induct)
  case (4 a as b bs)
  then show ?case
    by (auto simp: comparable_def less_pyfloat_def rank_inj)
qed simp_all

lemma no_descent_take: "no_descent ks \<Longrightarrow> no_descent (take n ks)"
proof (induction ks arbitrary: n rule: induct_list012)
  case 1
  show ?case by simp
next
  case (2 k)
  show ?case by (cases n) simp_all
next
  case (3 a b ks)
  show ?case
  proof (cases n)
    case 0
    then show ?thesis by simp
  next
    case (Suc m)
    from 3 have "no_descent (take m (b # ks))" and "\<not> key_lt b a" by simp_all
    with Suc show ?thesis by (cases m) simp_all
  qed
qed

lemma sorted_no_descent:
  assumes "list_all comparable ks" and "sorted (map (map rank) ks)"
  shows "no_descent ks"
  using assms
proof (induction ks rule: induct_list012)
  case (3 a b ks)
  then have "map rank a \<le> map rank b" and "comparable a" and "comparable b" by simp_all
  then have "\<not> key_lt b a" by (simp add: key_lt_rank not_less)
  with 3 show ?case by simp
qed simp_all

lemma no_descent_sorted:
  assumes "list_all comparable ks" and "no_descent ks"
  shows "sorted (map (map rank) ks)"
proof -
  have "sorted_wrt (\<lambda>a b. a \<le> b) (map (map rank) ks)"
    using assms
  proof (induction ks rule: induct_list012)
    case (3 a b ks)
    then have "\<not> key_lt b a" and "comparable a" and "comparable b" by simp_all
    then have ab: "map rank a \<le> map rank b" by (simp add: key_lt_rank not_less)
    from 3 have "sorted (map rank b # map (map rank) ks)" by simp
    with ab show ?case by (auto simp: order_trans)
  qed simp_all
  then show ?thesis by simp
qed

lemma arrange_facts:
  "mset (arrange srt xs) = mset xs"
  "no_descent (map fst (arrange srt xs))"
  "no_descent (map fst xs) \<Longrightarrow> arrange srt xs = xs"
  using arrange [of srt] by blast+

lemma arrange_keyed:
  "map fst (arrange srt (map (\<lambda>x. (key x, x)) xs)) =
     map key (map snd (arrange srt (map (\<lambda>x. (key x, x)) xs)))"
proof -
  have "set (arrange srt (map (\<lambda>x. (key x, x)) xs)) = set (map (\<lambda>x. (key x, x)) xs)"
    using arrange_facts(1) [of srt "map (\<lambda>x. (key x, x)) xs"] by (rule mset_eq_setD)
  then have "\<forall>p \<in> set (arrange srt (map (\<lambda>x. (key x, x)) xs)). fst p = key (snd p)"
    by auto
  then show ?thesis by simp
qed

lemma list_sort_mset: "mset (list_sort srt key r xs) = mset xs"
proof -
  have "mset (map snd (arrange srt (map (\<lambda>x. (key x, x)) ys))) = mset ys" for ys
  proof -
    have "mset (map snd (arrange srt (map (\<lambda>x. (key x, x)) ys)))
        = image_mset snd (mset (arrange srt (map (\<lambda>x. (key x, x)) ys)))"
      by simp
    also have "\<dots> = image_mset snd (mset (map (\<lambda>x. (key x, x)) ys))"
      by (simp only: arrange_facts(1))
    also have "\<dots> = mset ys"
      by (simp add: image_mset.compositionality comp_def)
    finally show ?thesis .
  qed
  then show ?thesis by (simp add: list_sort_def Let_def)
qed

lemma list_sort_set: "set (list_sort srt key r xs) = set xs"
  using list_sort_mset [of srt key r xs] by (rule mset_eq_setD)

lemma list_sort_length: "length (list_sort srt key r xs) = length xs"
  using list_sort_mset [of srt key r xs] by (rule mset_eq_length)

lemma list_sort_distinct:
  "distinct (map k (list_sort srt key r xs)) \<longleftrightarrow> distinct (map k xs)"
proof -
  have "mset (map k (list_sort srt key r xs)) = mset (map k xs)"
    by (simp add: list_sort_mset)
  then show ?thesis by (rule mset_eq_imp_distinct_iff)
qed

lemma list_sort_comparable:
  "list_all (\<lambda>x. comparable (key x)) xs \<Longrightarrow>
     list_sort srt key False xs = sort_key (\<lambda>x. map rank (key x)) xs"
  by (simp add: list_sort_def)

lemma list_sort_no_descent: "no_descent (map key (list_sort srt key False xs))"
proof (cases "list_all (\<lambda>x. comparable (key x)) xs")
  case True
  have "list_all comparable (map key (sort_key (\<lambda>x. map rank (key x)) xs))"
    using True by (simp add: list_all_iff)
  moreover have "sorted (map (map rank) (map key (sort_key (\<lambda>x. map rank (key x)) xs)))"
    using sorted_sort_key [of "\<lambda>x. map rank (key x)" xs] by (simp add: comp_def)
  ultimately have "no_descent (map key (sort_key (\<lambda>x. map rank (key x)) xs))"
    by (rule sorted_no_descent)
  with True show ?thesis by (simp add: list_sort_comparable)
next
  case False
  then have "list_sort srt key False xs = map snd (arrange srt (map (\<lambda>x. (key x, x)) xs))"
    by (simp add: list_sort_def)
  with arrange_facts(2) [of srt "map (\<lambda>x. (key x, x)) xs"] arrange_keyed [of srt key xs]
  show ?thesis by simp
qed

lemma list_sort_fixed:
  assumes "no_descent (map key xs)"
  shows "list_sort srt key False xs = xs"
proof (cases "list_all (\<lambda>x. comparable (key x)) xs")
  case True
  then have "list_all comparable (map key xs)" by (simp add: list_all_iff)
  from no_descent_sorted [OF this assms] have "sorted (map (\<lambda>x. map rank (key x)) xs)"
    by (simp add: comp_def)
  then have "sort_key (\<lambda>x. map rank (key x)) xs = xs" by (rule sort_key_id_if_sorted)
  with True show ?thesis by (simp add: list_sort_comparable)
next
  case False
  have "map fst (map (\<lambda>x. (key x, x)) xs) = map key xs" by simp
  with assms have "no_descent (map fst (map (\<lambda>x. (key x, x)) xs))" by (simp only:)
  from arrange_facts(3) [OF this]
  have "arrange srt (map (\<lambda>x. (key x, x)) xs) = map (\<lambda>x. (key x, x)) xs" .
  with False show ?thesis by (simp add: list_sort_def comp_def)
qed





section \<open>Loop invariants of the two deduplication loops\<close>

lemma dedup_code_step_pair:
  "dedup_code_step s (seen, acc) =
     (if code s \<noteq> [] \<and> code s \<notin> seen then (insert (code s) seen, acc @ [s]) else (seen, acc))"
  by (simp add: dedup_code_step_def)

lemma overview_step_pair:
  "overview_step s (seen, acc) =
     (if overview_key s \<noteq> [] \<and> overview_key s \<notin> seen
      then (insert (overview_key s) seen, acc @ [s]) else (seen, acc))"
  by (simp add: overview_step_def)

lemma fold_dedup_code_step:
  "fold dedup_code_step xs (seen, acc) =
     (seen \<union> (code ` set xs - {[]}), acc @ first_seen code seen xs)"
proof (induction xs arbitrary: seen acc)
  case Nil
  show ?case by simp
next
  case (Cons x xs)
  show ?case
    by (auto simp: dedup_code_step_pair Cons.IH)
qed

lemma fold_overview_step:
  "fold overview_step xs (seen, acc) =
     (seen \<union> (overview_key ` set xs - {[]}), acc @ first_seen overview_key seen xs)"
proof (induction xs arbitrary: seen acc)
  case Nil
  show ?case by simp
next
  case (Cons x xs)
  show ?case
    by (auto simp: overview_step_pair Cons.IH)
qed

lemma dedup_code_loop_eq: "dedup_code_loop xs = first_seen code {} xs"
  by (simp add: dedup_code_loop_def fold_dedup_code_step)

lemma overview_unique_eq:
  "overview_unique rt xs =
     list_sort (nan_sort rt) overview_sort_key False (first_seen overview_key {} xs)"
  by (simp add: overview_unique_def fold_overview_step)

lemma first_seen_keys: "k ` set (first_seen k seen xs) = k ` set xs - seen - {[]}"
  by (induction xs arbitrary: seen) auto

lemma first_seen_distinct: "distinct (map k (first_seen k seen xs))"
proof (induction xs arbitrary: seen)
  case Nil
  show ?case by simp
next
  case (Cons x xs)
  have "k x \<notin> k ` set (first_seen k (insert (k x) seen) xs)"
    by (simp add: first_seen_keys)
  with Cons.IH show ?case by (auto simp del: image_set)
qed


section \<open>Facts about the technical scan\<close>

lemma str_in_iff: "str_in sub s \<longleftrightarrow> (\<exists>p q. s = p @ sub @ q)"
proof (induction s)
  case Nil
  show ?case by auto
next
  case (Cons c cs)
  have a: "take (length sub) (c # cs) = sub \<longleftrightarrow> (\<exists>q. c # cs = sub @ q)"
    by (metis append_eq_conv_conj append_take_drop_id)
  have b: "(\<exists>p q. c # cs = p @ sub @ q) \<longleftrightarrow> (\<exists>q. c # cs = sub @ q) \<or> (\<exists>p q. cs = p @ sub @ q)"
    by (auto simp: Cons_eq_append_conv)
  show ?case using Cons.IH a b by simp
qed

lemma fin_le_trans: "Fin a \<le> x \<Longrightarrow> b \<le> a \<Longrightarrow> Fin b \<le> x"
  by (cases x) (simp_all add: less_eq_pyfloat_def)

lemma change_signal_facts:
  "snd (change_signal c) =
     (if c \<ge> Fin 9.9 then 40 else if c \<ge> Fin 7 then 25 else if c \<ge> Fin 5 then 15 else 0)"
  "fst (change_signal c) \<noteq> [] \<longleftrightarrow> c \<ge> Fin 5"
  using fin_le_trans [of "9.9" c 5] fin_le_trans [of 7 c 5]
  by (auto simp: change_signal_def)

lemma volume_signal_facts:
  "snd (volume_signal v) = (if v \<ge> Fin 3 then 25 else if v \<ge> Fin 2 then 15 else 0)"
  "fst (volume_signal v) \<noteq> [] \<longleftrightarrow> v \<ge> Fin 2"
  using fin_le_trans [of 3 v 2]
  by (auto simp: volume_signal_def)

lemma turnover_signal_facts:
  "snd (turnover_signal t) = (if Fin 5 \<le> t \<and> t \<le> Fin 15 then 10 else 0)"
  "fst (turnover_signal t) \<noteq> [] \<longleftrightarrow> Fin 5 \<le> t \<and> t \<le> Fin 15"
  by (auto simp: turnover_signal_def)

lemma tech_signals_score: "snd (tech_signals c v t) = spec_score c v t"
  by (simp add: tech_signals_def change_signal_facts(1) volume_signal_facts(1)
      turnover_signal_facts(1) spec_score_def)

lemma tech_signals_nonempty:
  "fst (tech_signals c v t) \<noteq> [] \<longleftrightarrow> c \<ge> Fin 5 \<or> v \<ge> Fin 2 \<or> (Fin 5 \<le> t \<and> t \<le> Fin 15)"
  by (simp add: tech_signals_def change_signal_facts(2) volume_signal_facts(2)
      turnover_signal_facts(2))

lemma spec_score_25: "spec_score c v t \<ge> 25 \<Longrightarrow> c \<ge> Fin 5 \<or> v \<ge> Fin 2"
  using fin_le_trans [of "9.9" c 5] fin_le_trans [of 7 c 5] fin_le_trans [of 3 v 2]
  by (auto simp: spec_score_def split: if_splits)

lemma cap_test:
  "\<not> (mc < Fin 30 \<or> mc > Fin 5000) \<longleftrightarrow> mc = NaN \<or> (Fin 30 \<le> mc \<and> mc \<le> Fin 5000)"
  by (cases "mc = NaN") (auto simp: not_less_pyfloat)

lemma tech_row_numeric:
  assumes "row_name row \<noteq> []" "row_code row \<noteq> []" "\<not> str_in ''ST'' (row_name row)"
    and "float_or (Fin 0) (row_change row) = Inr c"
    and "float_or (Fin 1) (row_volume_ratio row) = Inr v"
    and "float_or (Fin 0) (row_turnover row) = Inr t"
    and "float_or (Fin 0) (row_total_cap row) = Inr m"
  shows "tech_row rt per src row =
     (if spec_accept (fdiv (round_double rt) m (Fin 100000000)) c v t
         \<or> (fdiv (round_double rt) m (Fin 100000000) = NaN
              \<and> (c \<ge> Fin 5 \<or> v \<ge> Fin 2) \<and> spec_score c v t \<ge> 25)
      then
        Inr (Some \<lparr>code = row_code row, name = row_name row,
                  source = ''tech_breakout'', data_source = src, period = per,
                  priority = (if spec_score c v t \<ge> 50 then 2 else 3), mainline_score = Fin 0,
                  change_pct = c, entry_reason = Breakout (fst (tech_signals c v t)), sector = [],
                  tech_score = Some (spec_score c v t)\<rparr>)
      else Inr None)"
proof -
  let ?mc = "fdiv (round_double rt) m (Fin 100000000)"
  have ne: "fst (tech_signals c v t) \<noteq> [] \<and> spec_score c v t \<ge> 25
      \<longleftrightarrow> (c \<ge> Fin 5 \<or> v \<ge> Fin 2) \<and> spec_score c v t \<ge> 25"
    using spec_score_25 [of c v t] tech_signals_nonempty [of c v t] by blast
  have acc: "spec_accept ?mc c v t
         \<or> (?mc = NaN \<and> (c \<ge> Fin 5 \<or> v \<ge> Fin 2) \<and> spec_score c v t \<ge> 25)
      \<longleftrightarrow> \<not> (?mc < Fin 30 \<or> ?mc > Fin 5000)
          \<and> fst (tech_signals c v t) \<noteq> [] \<and> spec_score c v t \<ge> 25"
    unfolding ne cap_test spec_accept_def by blast
  have "tech_row rt per src row =
     (if \<not> (?mc < Fin 30 \<or> ?mc > Fin 5000)
          \<and> fst (tech_signals c v t) \<noteq> [] \<and> spec_score c v t \<ge> 25
      then
        Inr (Some \<lparr>code = row_code row, name = row_name row,
                  source = ''tech_breakout'', data_source = src, period = per,
                  priority = (if spec_score c v t \<ge> 50 then 2 else 3), mainline_score = Fin 0,
                  change_pct = c, entry_reason = Breakout (fst (tech_signals c v t)), sector = [],
                  tech_score = Some (spec_score c v t)\<rparr>)
      else Inr None)"
    using assms
    by (simp add: tech_row_def Let_def case_prod_beta tech_signals_score)
  then show ?thesis by (simp only: acc)
qed

lemma sort_reverse_descending: "sorted_wrt (\<lambda>a b. a \<ge> b) (map f (sort_reverse f xs))"
proof -
  have "sorted (map f (sort_key f (rev xs)))" by simp
  then have "sorted_wrt (\<lambda>a b. a \<ge> b) (rev (map f (sort_key f (rev xs))))"
    by (simp only: sorted_wrt_rev)
  then show ?thesis by (simp add: sort_reverse_def rev_map)
qed

lemma sort_reverse_mset: "mset (sort_reverse f xs) = mset xs"
  by (simp add: sort_reverse_def)

lemma sort_reverse_stable:
  "filter (\<lambda>x. f x = k) (sort_reverse f xs) = filter (\<lambda>x. f x = k) xs"
  by (simp add: sort_reverse_def rev_filter [symmetric] sort_key_stable)

lemma tech_row_Some:
  assumes "tech_row rt per src row = Inr (Some s)"
  shows "name s = row_name row \<and> code s = row_code row
     \<and> row_name row \<noteq> [] \<and> row_code row \<noteq> [] \<and> \<not> str_in ''ST'' (row_name row)"
  using assms
  by (auto simp: tech_row_def Let_def case_prod_beta split: if_splits sum.splits)

lemma tech_rows_list:
  "tech_rows rt per src rows = Inr acc \<Longrightarrow>
     acc = concat (map (\<lambda>row. case tech_row rt per src row of Inr (Some s) \<Rightarrow> [s] | _ \<Rightarrow> []) rows)"
proof (induction rows arbitrary: acc)
  case Nil
  then show ?case by simp
next
  case (Cons row rows)
  then show ?case
    by (auto split: sum.splits option.splits)
qed

lemma tech_rows_set:
  "tech_rows rt per src rows = Inr acc \<Longrightarrow>
     set acc = {s. \<exists>row \<in> set rows. tech_row rt per src row = Inr (Some s)}"
proof (induction rows arbitrary: acc)
  case Nil
  then show ?case by simp
next
  case (Cons row rows)
  then show ?case
    by (auto split: sum.splits option.splits)
qed

lemma mock_tech_names:
  "\<forall>s \<in> set get_mock_tech_stocks. name s \<noteq> [] \<and> code s \<noteq> [] \<and> \<not> str_in ''ST'' (name s)"
  by (simp add: get_mock_tech_stocks_def)

lemma tech_run_cases:
  "emitted (TechScanWorker_run rt per ak) = Finished get_mock_tech_stocks ''mock''
   \<or> (\<exists>rows acc. ak = Inr (Some rows) \<and> rows \<noteq> []
        \<and> tech_rows rt per ''AKShare realtime'' rows = Inr acc
        \<and> emitted (TechScanWorker_run rt per ak) =
            Finished (take 20 (sort_reverse get_score acc)) ''AKShare realtime'')"
  by (auto simp: TechScanWorker_run_def split: sum.splits option.splits error.splits)

section \<open>Facts about the overview chain\<close>

lemma cycles_Suc: "cycles (Suc n) = cycles n @ overview_chain"
  unfolding cycles_def by (induction n) simp_all

lemma running_overview_eq:
  "running_overview p =
     (if is_running p OverviewMainline then [OverviewMainline] else [])
     @ (if is_running p OverviewTech then [OverviewTech] else [])
     @ (if is_running p OverviewEtf then [OverviewEtf] else [])
     @ (if is_running p OverviewExternal then [OverviewExternal] else [])"
  by (simp add: running_overview_def overview_chain_def is_running_def)

lemma init_inv: "chain_inv init_panel"
  unfolding chain_inv_def
  by (rule exI [of _ 0], rule exI [of _ 0]) (simp add: phase_def init_panel_def cycles_def is_running_def)

lemma do_scan_all_phase:
  assumes "phase n 0 p"
  shows "scan_all_btn_enabled p \<Longrightarrow> phase n 1 (do_scan_all p)"
    and "phase n 1 (do_scan_all (returned Identification p))"
    and "phase n 1 (do_scan_all (returned Identification p\<lparr>scan_all_btn_enabled := True\<rparr>))"
  using assms
  by (auto simp: phase_def do_scan_all_def start_mainline_scan_def start_worker_def is_running_def
      overview_chain_def returned_def)

lemma ident_phase:
  assumes "phase n 0 p" "scan_all_btn_enabled p"
  shows "phase n 0 (run_mainline_identification p)"
  using assms
  by (auto simp: phase_def run_mainline_identification_def is_running_def)

lemma phase_ident_running:
  assumes "phase n k p" "workers p Identification = Some Running"
  shows "k = 0"
  using assms by (auto simp: phase_def is_running_def split: if_splits)

lemma phase_enabled:
  assumes "phase n k p" "scan_all_btn_enabled p"
  shows "k = 0"
  using assms by (auto simp: phase_def is_running_def split: if_splits)

lemma phase_running:
  assumes "phase n k p"
  shows "workers p OverviewMainline = Some Running \<longleftrightarrow> k = 1"
    "workers p OverviewTech = Some Running \<longleftrightarrow> k = 2"
    "workers p OverviewEtf = Some Running \<longleftrightarrow> k = 3"
    "workers p OverviewExternal = Some Running \<longleftrightarrow> k = 4"
  using assms by (auto simp: phase_def is_running_def)

lemma mainline_done_phase:
  assumes "phase n 1 p"
  shows "phase n 2 (on_overview_mainline_done stocks src (handling OverviewMainline p))"
  using assms
  by (auto simp: phase_def on_overview_mainline_done_def start_tech_scan_def start_worker_def
      handling_def is_running_def overview_chain_def)

lemma tech_done_phase:
  assumes "phase n 2 p"
  shows "phase n 3 (on_overview_tech_done stocks src (handling OverviewTech p))"
  using assms
  by (auto simp: phase_def on_overview_tech_done_def start_etf_scan_def start_worker_def
      handling_def is_running_def overview_chain_def)

lemma etf_done_phase:
  assumes "phase n 3 p"
  shows "phase n 4 (on_overview_etf_done etfs src (handling OverviewEtf p))"
  using assms
  by (auto simp: phase_def on_overview_etf_done_def start_external_scan_def start_worker_def
      handling_def is_running_def overview_chain_def)

lemma external_done_phase:
  assumes "phase n 4 p"
  shows "phase (Suc n) 0 (on_overview_external_done rt stocks src (handling OverviewExternal p))"
  using assms
  by (auto simp: phase_def on_overview_external_done_def handling_def is_running_def
      cycles_Suc overview_chain_def)

lemma single_phase:
  assumes "phase n k p"
  shows "phase n k (scan_single t e p)"
    and "phase n k (on_single_done t stocks (p\<lparr>single_workers := ws\<rparr>))"
    and "phase n k (on_etf_single_done etfs src (p\<lparr>single_workers := ws\<rparr>))"
  using assms
  by (auto simp: phase_def scan_single_def on_single_done_def on_etf_single_done_def is_running_def
      split: tab.splits)

lemma step_inv:
  assumes "chain_inv p" and "panel_step rt i p = Some p'"
  shows "chain_inv p'"
proof -
  from assms(1) obtain n k where ph: "phase n k p" unfolding chain_inv_def by blast
  show ?thesis
  proof (cases i)
    case (ClickScanAll e y)
    with assms(2) have en: "scan_all_btn_enabled p" and p': "p' = scan_all e y p"
      by (auto simp: panel_step_def split: if_splits)
    from phase_enabled [OF ph en] ph have "phase n 0 p" by simp
    then have "phase n 1 (do_scan_all p)" and "phase n 0 (run_mainline_identification p)"
      using en by (rule do_scan_all_phase(1), rule ident_phase)
    with p' show ?thesis
      unfolding chain_inv_def scan_all_def by (cases "\<not> e \<and> y") auto
  next
    case (ClickSingle t e)
    with assms(2) have "p' = scan_single t e p" by (simp add: panel_step_def)
    with single_phase(1) [OF ph] show ?thesis unfolding chain_inv_def by blast
  next
    case IdentificationFinished
    with assms(2) have r: "workers p Identification = Some Running"
      and p': "p' = on_mainline_identification_done (returned Identification p)"
      by (auto simp: panel_step_def split: if_splits)
    from phase_ident_running [OF ph r] ph have "phase n 0 p" by simp
    from do_scan_all_phase(2) [OF this] p' show ?thesis
      unfolding chain_inv_def on_mainline_identification_done_def by blast
  next
    case (IdentificationError m)
    with assms(2) have r: "workers p Identification = Some Running"
      and p': "p' = on_mainline_identification_error (returned Identification p)"
      by (auto simp: panel_step_def split: if_splits)
    from phase_ident_running [OF ph r] ph have "phase n 0 p" by simp
    from do_scan_all_phase(3) [OF this] p' show ?thesis
      unfolding chain_inv_def on_mainline_identification_error_def by blast
  next
    case (MainlineFinished stocks src)
    with assms(2) have r: "workers p OverviewMainline = Some Running"
      and p': "p' = on_overview_mainline_done stocks src (handling OverviewMainline p)"
      by (auto simp: panel_step_def split: if_splits)
    from phase_running(1) [OF ph] r ph have "phase n 1 p" by simp
    from mainline_done_phase [OF this] p' show ?thesis unfolding chain_inv_def by blast
  next
    case (TechFinished stocks src)
    with assms(2) have r: "workers p OverviewTech = Some Running"
      and p': "p' = on_overview_tech_done stocks src (handling OverviewTech p)"
      by (auto simp: panel_step_def split: if_splits)
    from phase_running(2) [OF ph] r ph have "phase n 2 p" by simp
    from tech_done_phase [OF this] p' show ?thesis unfolding chain_inv_def by blast
  next
    case (EtfFinished etfs src)
    with assms(2) have r: "workers p OverviewEtf = Some Running"
      and p': "p' = on_overview_etf_done etfs src (handling OverviewEtf p)"
      by (auto simp: panel_step_def split: if_splits)
    from phase_running(3) [OF ph] r ph have "phase n 3 p" by simp
    from etf_done_phase [OF this] p' show ?thesis unfolding chain_inv_def by blast
  next
    case (ExternalFinished stocks src)
    with assms(2) have r: "workers p OverviewExternal = Some Running"
      and p': "p' = on_overview_external_done rt stocks src (handling OverviewExternal p)"
      by (auto simp: panel_step_def split: if_splits)
    from phase_running(4) [OF ph] r ph have "phase n 4 p" by simp
    from external_done_phase [OF this] p' show ?thesis unfolding chain_inv_def by blast
  next
    case (SingleFinished t stocks src)
    with assms(2)
    have "p' = on_single_done t stocks (p\<lparr>single_workers := remove1 t (single_workers p)\<rparr>)"
      by (auto simp: panel_step_def split: if_splits)
    with single_phase(2) [OF ph] show ?thesis unfolding chain_inv_def by blast
  next
    case (SingleEtfFinished etfs src)
    with assms(2)
    have "p' = on_etf_single_done etfs src (p\<lparr>single_workers := remove1 EtfTab (single_workers p)\<rparr>)"
      by (auto simp: panel_step_def split: if_splits)
    with single_phase(3) [OF ph] show ?thesis unfolding chain_inv_def by blast
  qed
qed

lemma run_inv: "chain_inv p \<Longrightarrow> panel_run rt ins p = Some p' \<Longrightarrow> chain_inv p'"
proof (induction ins arbitrary: p)
  case Nil
  then show ?case by simp
next
  case (Cons i ins)
  then show ?case by (auto split: option.splits dest: step_inv)
qed

lemma phase_facts:
  assumes "phase n k p"
  shows "length (running_overview p) \<le> 1"
    and "started p = handled p @ running_overview p"
    and "scan_all_btn_enabled p \<longrightarrow> running_overview p = []"
    and "\<not> scan_all_btn_enabled p \<and> workers p Identification \<noteq> Some Running \<longrightarrow> length (running_overview p) = 1"
    and "started p = concat (replicate n overview_chain) @ take k overview_chain"
  using assms
  by (auto simp: phase_def running_overview_eq is_running_def cycles_def overview_chain_def
      split: if_splits)


section \<open>The loops against the specification's wording\<close>


lemma first_seen_keep_first:
  "first_seen k seen xs = keep_first k (filter (\<lambda>x. k x \<noteq> [] \<and> k x \<notin> seen) xs)"
proof (induction xs arbitrary: seen)
  case Nil
  show ?case by simp
next
  case (Cons x xs)
  have "filter (\<lambda>y. k y \<noteq> k x) (filter (\<lambda>y. k y \<noteq> [] \<and> k y \<notin> seen) xs)
      = filter (\<lambda>y. k y \<noteq> [] \<and> k y \<notin> insert (k x) seen) xs"
    by (auto intro: filter_cong)
  then show ?case by (simp add: Cons.IH)
qed





lemma first_seen_drop_empty: "first_seen k (seen - {[]}) ys = first_seen k seen ys"
proof (induction ys arbitrary: seen)
  case Nil
  show ?case by simp
next
  case (Cons a ys)
  have "insert (k a) (seen - {[]}) = insert (k a) seen - {[]}" if "k a \<noteq> []"
    using that by auto
  then show ?case using Cons.IH [of seen] Cons.IH [of "insert (k a) seen"] by simp
qed

lemma first_seen_append:
  "first_seen k seen (xs @ ys) = first_seen k seen xs @ first_seen k (seen \<union> (k ` set xs - {[]})) ys"
proof (induction xs arbitrary: seen)
  case Nil
  show ?case by simp
next
  case (Cons x xs)
  show ?case
  proof (cases "k x \<noteq> [] \<and> k x \<notin> seen")
    case True
    then have "insert (k x) seen \<union> (k ` set xs - {[]}) = seen \<union> (k ` set (x # xs) - {[]})"
      by auto
    then show ?thesis using True Cons.IH [of "insert (k x) seen"] by simp
  next
    case False
    then have e: "seen \<union> (k ` set (x # xs) - {[]}) = seen \<union> (k ` set xs - {[]})"
      by auto
    have s: "first_seen k seen (x # zs) = first_seen k seen zs" for zs
      using False by auto
    have "first_seen k seen ((x # xs) @ ys) = first_seen k seen (xs @ ys)"
      using s [of "xs @ ys"] by simp
    also have "\<dots> = first_seen k seen xs @ first_seen k (seen \<union> (k ` set xs - {[]})) ys"
      by (rule Cons.IH)
    finally show ?thesis by (simp only: s e)
  qed
qed

lemma first_seen_all_seen:
  "k ` set ys \<subseteq> seen \<union> {[]} \<Longrightarrow> first_seen k seen ys = []"
  by (induction ys arbitrary: seen) auto

lemma first_seen_fixed:
  "distinct (map k ys) \<Longrightarrow> \<forall>y \<in> set ys. k y \<noteq> [] \<and> k y \<notin> seen \<Longrightarrow> first_seen k seen ys = ys"
proof (induction ys arbitrary: seen)
  case Nil
  show ?case by simp
next
  case (Cons a ys)
  have "k a \<notin> k ` set ys" using Cons.prems(1) by simp
  then have "\<forall>y \<in> set ys. k y \<noteq> [] \<and> k y \<notin> insert (k a) seen"
    using Cons.prems(2) by (metis image_eqI insert_iff list.set_intros(2))
  moreover have "distinct (map k ys)" using Cons.prems by simp
  ultimately have "first_seen k (insert (k a) seen) ys = ys" by (rule Cons.IH [rotated])
  then show ?case using Cons.prems by simp
qed

lemma first_seen_twice:
  "first_seen k {} ((xs @ ys) @ ys) = first_seen k {} (xs @ ys)"
proof -
  have "k ` set ys \<subseteq> ({} \<union> (k ` set (xs @ ys) - {[]})) \<union> {[]}" by auto
  then have "first_seen k ({} \<union> (k ` set (xs @ ys) - {[]})) ys = []"
    by (rule first_seen_all_seen)
  then show ?thesis by (simp only: first_seen_append [of k "{}" "xs @ ys" ys] append_Nil2)
qed

lemma keep_first_coded:
  assumes "\<forall>s \<in> set zs. code s \<noteq> []"
  shows "keep_first code zs = keep_first spec_identity zs"
  using assms
proof (induction "length zs" arbitrary: zs rule: less_induct)
  case less
  show ?case
  proof (cases zs)
    case Nil
    then show ?thesis by simp
  next
    case (Cons z zs')
    have e: "\<And>y. y \<in> set zs' \<Longrightarrow> (code y \<noteq> code z) = (spec_identity y \<noteq> spec_identity z)"
      using less.prems Cons by (simp add: spec_identity_def)
    then have fe: "filter (\<lambda>y. code y \<noteq> code z) zs' = filter (\<lambda>y. spec_identity y \<noteq> spec_identity z) zs'"
      by (auto intro: filter_cong)
    have "length (filter (\<lambda>y. code y \<noteq> code z) zs') < length zs"
      using Cons by (simp add: le_imp_less_Suc)
    moreover have "\<forall>s \<in> set (filter (\<lambda>y. code y \<noteq> code z) zs'). code s \<noteq> []"
      using less.prems Cons by simp
    ultimately have "keep_first code (filter (\<lambda>y. code y \<noteq> code z) zs')
        = keep_first spec_identity (filter (\<lambda>y. code y \<noteq> code z) zs')"
      by (rule less.hyps)
    then show ?thesis using Cons fe by simp
  qed
qed

lemma dedup_code_loop_spec:
  "dedup_code_loop ys = keep_first spec_identity (filter (\<lambda>s. code s \<noteq> []) ys)"
proof -
  have "dedup_code_loop ys = keep_first code (filter (\<lambda>s. code s \<noteq> []) ys)"
    by (simp add: dedup_code_loop_eq first_seen_keep_first)
  also have "\<dots> = keep_first spec_identity (filter (\<lambda>s. code s \<noteq> []) ys)"
    by (rule keep_first_coded) simp
  finally show ?thesis .
qed





lemma deduplicate_and_sort_mset:
  "\<exists>zs. mset zs = mset (keep_first spec_identity (filter (\<lambda>s. code s \<noteq> []) ys))
        \<and> deduplicate_and_sort rt ys = take 30 zs"
proof -
  have "mset (list_sort (nan_sort rt) mainline_sort_key False (dedup_code_loop ys))
      = mset (keep_first spec_identity (filter (\<lambda>s. code s \<noteq> []) ys))"
    by (simp only: list_sort_mset dedup_code_loop_spec)
  then show ?thesis unfolding deduplicate_and_sort_def by blast
qed




lemma deduplicate_and_sort_idem:
  "deduplicate_and_sort rt (deduplicate_and_sort rt xs) = deduplicate_and_sort rt xs"
proof -
  define zs where "zs = list_sort (nan_sort rt) mainline_sort_key False (first_seen code {} xs)"
  define ys where "ys = deduplicate_and_sort rt xs"
  have ys: "ys = take 30 zs"
    by (simp add: ys_def zs_def deduplicate_and_sort_def dedup_code_loop_eq)
  have "set ys \<subseteq> set zs" unfolding ys by (rule set_take_subset)
  then have sub: "set ys \<subseteq> set (first_seen code {} xs)"
    by (simp add: zs_def list_sort_set)
  have ne: "\<forall>y \<in> set ys. code y \<noteq> [] \<and> code y \<notin> {}"
    using sub first_seen_keys [of code "{}" xs] by auto
  have "distinct (map code zs)"
    unfolding zs_def using first_seen_distinct [of code "{}" xs] by (simp only: list_sort_distinct)
  then have di: "distinct (map code ys)"
    unfolding ys by (simp add: take_map [symmetric] del: take_map)
  have "no_descent (map mainline_sort_key zs)"
    unfolding zs_def by (rule list_sort_no_descent)
  then have "no_descent (take 30 (map mainline_sort_key zs))" by (rule no_descent_take)
  then have so: "no_descent (map mainline_sort_key ys)"
    unfolding ys by (simp only: take_map)
  have le: "length ys \<le> 30" unfolding ys by simp
  have "deduplicate_and_sort rt ys = take 30 (list_sort (nan_sort rt) mainline_sort_key False ys)"
    using first_seen_fixed [OF di ne] by (simp add: deduplicate_and_sort_def dedup_code_loop_eq)
  also have "\<dots> = take 30 ys" using so by (simp only: list_sort_fixed)
  also have "\<dots> = ys" using le by simp
  finally show ?thesis by (simp add: ys_def)
qed

lemma overview_rows_idem: "overview_rows rt (overview_rows rt xs) = overview_rows rt xs"
proof -
  define zs where "zs = overview_unique rt xs"
  define ys where "ys = overview_rows rt xs"
  have zs: "zs = list_sort (nan_sort rt) overview_sort_key False (first_seen overview_key {} xs)"
    by (simp only: zs_def overview_unique_eq)
  have ys: "ys = take 50 zs"
    by (simp add: ys_def zs_def overview_rows_def)
  have "set ys \<subseteq> set zs" unfolding ys by (rule set_take_subset)
  then have sub: "set ys \<subseteq> set (first_seen overview_key {} xs)"
    by (simp add: zs list_sort_set)
  have ne: "\<forall>y \<in> set ys. overview_key y \<noteq> [] \<and> overview_key y \<notin> {}"
    using sub first_seen_keys [of overview_key "{}" xs] by auto
  have "distinct (map overview_key zs)"
    unfolding zs using first_seen_distinct [of overview_key "{}" xs]
    by (simp only: list_sort_distinct)
  then have di: "distinct (map overview_key ys)"
    unfolding ys by (simp add: take_map [symmetric] del: take_map)
  have "no_descent (map overview_sort_key zs)"
    unfolding zs by (rule list_sort_no_descent)
  then have "no_descent (take 50 (map overview_sort_key zs))" by (rule no_descent_take)
  then have so: "no_descent (map overview_sort_key ys)"
    unfolding ys by (simp only: take_map)
  have le: "length ys \<le> 50" unfolding ys by simp
  have "overview_rows rt ys = take 50 (list_sort (nan_sort rt) overview_sort_key False ys)"
    using first_seen_fixed [OF di ne]
    by (simp only: overview_rows_def overview_unique_eq)
  also have "\<dots> = take 50 ys" using so by (simp only: list_sort_fixed)
  also have "\<dots> = ys" using le by simp
  finally show ?thesis by (simp add: ys_def)
qed


section \<open>Facts about the mainline scan\<close>

lemma dedup_output_subset: "set (deduplicate_and_sort rt xs) \<subseteq> set (first_seen code {} xs)"
proof -
  have "set (deduplicate_and_sort rt xs)
      \<subseteq> set (list_sort (nan_sort rt) mainline_sort_key False (first_seen code {} xs))"
    unfolding deduplicate_and_sort_def dedup_code_loop_eq by (rule set_take_subset)
  then show ?thesis by (simp only: list_sort_set)
qed


lemma dedup_output_codes: "s \<in> set (deduplicate_and_sort rt xs) \<Longrightarrow> code s \<noteq> []"
proof -
  assume "s \<in> set (deduplicate_and_sort rt xs)"
  then have "s \<in> set (first_seen code {} xs)"
    by (rule subsetD [OF dedup_output_subset])
  then have "code s \<in> code ` set (first_seen code {} xs)" by simp
  then show ?thesis unfolding first_seen_keys by simp
qed

lemma mock_mainline_codes: "\<forall>s \<in> set get_mock_mainline_stocks. code s \<noteq> []"
  by (simp add: get_mock_mainline_stocks_def)

lemma mainline_run_cases:
  "(\<exists>l d. MainlineScanWorker_run rt self env =
        \<lparr>logged = l, emitted = Finished get_mock_mainline_stocks d\<rparr>)
   \<or> (\<exists>l l4 ms all_stocks. scan_loop rt self env 0 ms = (l4, Inr all_stocks)
        \<and> MainlineScanWorker_run rt self env =
         \<lparr>logged = l, emitted = Finished (deduplicate_and_sort rt all_stocks) ''MongoDB + JQData''\<rparr>)"
proof -
  have "(\<exists>l' d. scan_mapped rt self env l ms =
        \<lparr>logged = l', emitted = Finished get_mock_mainline_stocks d\<rparr>)
   \<or> (\<exists>l' l4 ms' all_stocks. scan_loop rt self env 0 ms' = (l4, Inr all_stocks)
        \<and> scan_mapped rt self env l ms =
         \<lparr>logged = l', emitted = Finished (deduplicate_and_sort rt all_stocks) ''MongoDB + JQData''\<rparr>)"
    for l ms
    unfolding scan_mapped_def Let_def
    by (auto split: prod.splits sum.splits error.splits simp del: scan_loop.simps)
  then show ?thesis
    unfolding MainlineScanWorker_run_def Let_def
    by (simp split: prod.splits)
qed

lemma leader_never_in_scan_output:
  "s \<in> set (finished_list (emitted (MainlineScanWorker_run rt self env))) \<Longrightarrow> code s \<noteq> []"
  using mainline_run_cases [of rt self env] mock_mainline_codes dedup_output_codes
  by (auto simp: finished_list_def)





lemma py_prefix_length: "0 \<le> n \<Longrightarrow> length (py_prefix n xs) \<le> nat n"
  by (simp add: py_prefix_def)

lemma mainline_constituents_eq:
  assumes "get_stocks_from_jqdata env (ml_jqdata_code m) (ml_jqdata_type m) = (l1, concept)"
    and "filter_strong_stocks_jqdata rt self env concept
      (score_number (ml_total_score m)) (ml_name m) = (l2, strong)"
  shows "mainline_constituents rt self env m =
     (if concept \<noteq> [] then
        (l1 @ l2, py_prefix (max_stocks_per_mainline self)
           (filter (\<lambda>s. name s \<noteq> ml_leader_stock m) strong))
      else (l1, []))"
  unfolding mainline_constituents_def assms(1) prod.case Let_def
  by (simp only: assms(2) prod.case split: if_splits)


lemma mainline_constituents_length:
  assumes "0 \<le> max_stocks_per_mainline self"
  shows "length (snd (mainline_constituents rt self env m)) \<le> nat (max_stocks_per_mainline self)"
proof -
  obtain l1 concept where g: "get_stocks_from_jqdata env (ml_jqdata_code m) (ml_jqdata_type m) = (l1, concept)"
    by (cases "get_stocks_from_jqdata env (ml_jqdata_code m) (ml_jqdata_type m)")
  obtain l2 strong where f: "filter_strong_stocks_jqdata rt self env concept
      (score_number (ml_total_score m)) (ml_name m) = (l2, strong)"
    by (cases "filter_strong_stocks_jqdata rt self env concept (score_number (ml_total_score m)) (ml_name m)")
  show ?thesis
    using py_prefix_length [OF assms]
    by (cases "concept = []") (simp_all add: mainline_constituents_eq [OF g f])
qed










section \<open>Facts about failures\<close>

lemma etf_run_finished: "\<exists>xs d. emitted (ETFScanWorker_run rt ak sv) = Finished xs d"
  by (auto simp: ETFScanWorker_run_def split: sum.splits option.splits error.splits)

lemma external_run_finished: "\<exists>xs d. emitted (ExternalParseWorker_run pa) = Finished xs d"
  by (auto simp: ExternalParseWorker_run_def split: sum.splits option.splits error.splits)

lemma tech_run_finished: "\<exists>xs d. emitted (TechScanWorker_run rt per ak) = Finished xs d"
  using tech_run_cases [of rt per ak] by auto

lemma mainline_run_finished: "\<exists>xs d. emitted (MainlineScanWorker_run rt self env) = Finished xs d"
  using mainline_run_cases [of rt self env] by auto

lemma mainline_login_failures:
  "MainlineScanWorker_run rt self (env\<lparr>jq_config := Inl (Exception msg)\<rparr>) =
     \<lparr>logged = [(Error, msg)],
      emitted = Finished get_mock_mainline_stocks ''mock (JQData unavailable)''\<rparr>"
  "MainlineScanWorker_run rt self
       (env\<lparr>jq_config := Inr True, jq_authenticate := Inl (Exception msg)\<rparr>) =
     \<lparr>logged = [(Error, msg)],
      emitted = Finished get_mock_mainline_stocks ''mock (JQData unavailable)''\<rparr>"
  "MainlineScanWorker_run rt self
       (env\<lparr>jq_config := Inr True, jq_authenticate := Inr True,
            jq_permission := Inl (Exception msg)\<rparr>) =
     \<lparr>logged = [(Error, msg)],
      emitted = Finished get_mock_mainline_stocks ''mock (JQData unavailable)''\<rparr>"
  by (simp_all add: MainlineScanWorker_run_def init_jqdata_def)

lemma mainline_source_failures:
  "load_mapped_mainlines (env\<lparr>mongo_connect := Inl (Exception msg)\<rparr>) = ([(Warning, msg)], [])"
  "load_mapped_mainlines (env\<lparr>mongo_connect := Inr (), mongo_latest := Inl (Exception msg)\<rparr>)
     = ([(Warning, msg)], [])"
  "load_mainline_from_file (env\<lparr>file_exists := True, file_load := Inl (Exception msg)\<rparr>)
     = ([(Warning, msg)], [])"
  "map_mainlines_to_jqdata (env\<lparr>mapper_create := Inl (Exception msg)\<rparr>) ms = ([(Error, msg)], [])"
  "map_mainlines_to_jqdata
       (env\<lparr>mapper_create := Inr (), map_mainline := \<lambda>n. Inl (Exception msg)\<rparr>)
       (m\<lparr>ml_name := c # cs\<rparr> # ms)
     = ([(Error, msg)], [])"
  by (simp_all add: load_mapped_mainlines_def init_mongodb_def load_mainline_from_file_def
      map_mainlines_to_jqdata_def)

lemma mainline_query_failures:
  "get_stocks_from_jqdata (env\<lparr>concept_stocks := \<lambda>c. Inl (Exception msg)\<rparr>) jc ''concept''
     = ([(Warning, msg)], [])"
  "get_stocks_from_jqdata (env\<lparr>industry_stocks := \<lambda>c. Inl (Exception msg)\<rparr>) jc ''industry''
     = ([(Warning, msg)], [])"
  "get_akshare_realtime_data (env\<lparr>spot := Inl (Exception msg)\<rparr>) = ([(Warning, msg)], None)"
  "get_akshare_realtime_data (env\<lparr>spot := Inr (Some (row\<lparr>row_change := Junk t\<rparr> # rows))\<rparr>)
     = ([(Warning, ''ValueError'')], None)"
  "get_stock_price_jqdata rt (env\<lparr>get_price := \<lambda>c. Inl (Exception msg)\<rparr>) jc
     = ([(Debug, msg)], None)"
  "lookup_name (env\<lparr>display_name := \<lambda>c. Inl (Exception msg)\<rparr>) jc fallback = fallback"
  by (simp_all add: get_stocks_from_jqdata_def get_akshare_realtime_data_def float_or_def
      get_stock_price_jqdata_def lookup_name_def)

lemma mainline_loop_failure:
  assumes "filter (\<lambda>m. ml_jqdata_mapped m \<or> ml_jqdata_code m \<noteq> []) ms \<noteq> []"
    and "scan_loop rt self env 0
          (py_prefix (min (int (length (filter (\<lambda>m. ml_jqdata_mapped m \<or> ml_jqdata_code m \<noteq> []) ms)))
                       (max_mainlines self))
             (filter (\<lambda>m. ml_jqdata_mapped m \<or> ml_jqdata_code m \<noteq> []) ms)) = (l4, Inl (Exception msg))"
  shows "scan_mapped rt self env l ms =
     \<lparr>logged = l @ l4 @ [(Error, msg)],
      emitted = Finished get_mock_mainline_stocks ''mock (exception)''\<rparr>"
proof -
  from assms(1) have "ms \<noteq> []" by auto
  with assms show ?thesis by (simp add: scan_mapped_def Let_def)
qed

lemma tech_failures:
  "TechScanWorker_run rt per (Inl (Exception msg)) =
     \<lparr>logged = [(Warning, msg)], emitted = Finished get_mock_tech_stocks ''mock''\<rparr>"
  "rows \<noteq> [] \<Longrightarrow> tech_rows rt per ''AKShare realtime'' rows = Inl (Exception msg) \<Longrightarrow>
   TechScanWorker_run rt per (Inr (Some rows)) =
     \<lparr>logged = [(Error, msg)], emitted = Finished get_mock_tech_stocks ''mock''\<rparr>"
  by (simp_all add: TechScanWorker_run_def)

lemma etf_failures:
  "ETFScanWorker_run rt (Inl (Exception msg)) sv =
     \<lparr>logged = [(Error, msg)], emitted = Finished get_mock_etfs ''mock''\<rparr>"
  "erows \<noteq> [] \<Longrightarrow>
   ETFScanWorker_run rt (Inr (Some erows)) (\<lambda>r. Inl (Exception msg)) =
     \<lparr>logged = [(Error, msg)], emitted = Finished get_mock_etfs ''mock''\<rparr>"
  "erows \<noteq> [] \<Longrightarrow> sv erows = Inr sorted_rows \<Longrightarrow>
   etf_rows rt (take 30 sorted_rows) = Inl (Exception msg) \<Longrightarrow>
   ETFScanWorker_run rt (Inr (Some erows)) sv =
     \<lparr>logged = [(Error, msg)], emitted = Finished get_mock_etfs ''mock''\<rparr>"
  by (simp_all add: ETFScanWorker_run_def)

lemma external_failure:
  "ExternalParseWorker_run (Inl (Exception msg)) =
     \<lparr>logged = [(Debug, msg)], emitted = Finished get_mock_external_stocks ''sample''\<rparr>"
  by (simp add: ExternalParseWorker_run_def)

lemma factor_fetch_failure:
  "fetch_step (fenv\<lparr>fe_concept_stocks := \<lambda>c. Inl (Exception msg),
                   fe_industry_stocks := \<lambda>c. Inl (Exception msg)\<rparr>) jc (l, d)
     = (l @ [(Warning, msg)], d)"
  by (simp add: fetch_step_def)

lemma factor_failures:
  "FactorFilterWorker_run fself (fenv\<lparr>jq_import := Inl (Exception msg)\<rparr>) =
     \<lparr>logged = [(Error, msg)], emitted = Failed msg\<rparr>"
  "FactorFilterWorker_run fself (fenv\<lparr>jq_import := Inr (), available_date := Inl (Exception msg)\<rparr>) =
     \<lparr>logged = [(Error, msg)], emitted = Failed msg\<rparr>"
  by (simp_all add: FactorFilterWorker_run_def)

lemma collect_stocks_env:
  "collect_stocks fself
     (fenv\<lparr>jq_import := a, available_date := b, factor_integration_available := c,
           process_candidate_pool := d\<rparr>) = collect_stocks fself fenv"
proof -
  have "fetch_step (fenv\<lparr>jq_import := a, available_date := b, factor_integration_available := c,
           process_candidate_pool := d\<rparr>) = fetch_step fenv"
    by (intro ext) (simp add: fetch_step_def)
  then show ?thesis by (simp add: collect_stocks_def)
qed

lemma factor_compute_failure:
  assumes "snd (snd (collect_stocks fself fenv)) \<noteq> []"
  shows "FactorFilterWorker_run fself
       (fenv\<lparr>jq_import := Inr (), available_date := Inr (), factor_integration_available := True,
             process_candidate_pool := \<lambda>stocks scores n. Inl (Exception msg)\<rparr>) =
     \<lparr>logged = fst (collect_stocks fself fenv) @ [(Error, msg)], emitted = Failed msg\<rparr>"
proof -
  obtain fl smm codes where c: "collect_stocks fself fenv = (fl, smm, codes)"
    by (cases "collect_stocks fself fenv") auto
  with assms have "codes \<noteq> []" by simp
  then show ?thesis
    unfolding FactorFilterWorker_run_def collect_stocks_env c by simp
qed

lemma factor_no_stocks:
  assumes "snd (snd (collect_stocks fself fenv)) = []"
  shows "FactorFilterWorker_run fself (fenv\<lparr>jq_import := Inr (), available_date := Inr ()\<rparr>) =
     \<lparr>logged = fst (collect_stocks fself fenv), emitted = Failed ''no stocks were obtained''\<rparr>"
proof -
  obtain fl smm codes where c: "collect_stocks fself fenv = (fl, smm, codes)"
    by (cases "collect_stocks fself fenv") auto
  have "fetch_step (fenv\<lparr>jq_import := Inr (), available_date := Inr ()\<rparr>) = fetch_step fenv"
    by (intro ext) (simp add: fetch_step_def)
  then have "collect_stocks fself (fenv\<lparr>jq_import := Inr (), available_date := Inr ()\<rparr>)
      = collect_stocks fself fenv"
    by (simp add: collect_stocks_def)
  with assms c show ?thesis
    unfolding FactorFilterWorker_run_def by simp
qed

section \<open>Facts about the strategy script\<close>

lemma unlines_append: "unlines (xs @ ys) = unlines xs @ unlines ys"
  by (simp add: unlines_def)

lemma unlines_single: "unlines [l] = l @ [CHR 0x0A]"
  by (simp add: unlines_def)

lemma script_embeds_list:
  "str_in (''STOCK_POOL = '' @ list_repr repr code_list @ [CHR 0x0A])
     (strategy_script repr stamp code_list)"
proof -
  define a where "a = [''# -*- coding: utf-8 -*-'',
       [CHR 0x22, CHR 0x22, CHR 0x22],
       ''Taorui Quant - stock pool strategy'',
       ''generated at: '' @ stamp,
       ''number of stocks: '' @ decimal (length code_list),
       [CHR 0x22, CHR 0x22, CHR 0x22],
       []]"
  define b where "b = [[],
       ''def initialize(context):'',
       ''    set_benchmark('000300.XSHG')'',
       ''    run_monthly(rebalance, 1, time='open')'',
       [],
       ''def rebalance(context):'',
       ''    stocks = STOCK_POOL'',
       ''    for stock in list(context.portfolio.positions.keys()):'',
       ''        if stock not in stocks:'',
       ''            order_target(stock, 0)'',
       ''    '',
       ''    if len(stocks) > 0:'',
       ''        weight = 1.0 / len(stocks)'',
       ''        for stock in stocks:'',
       ''            order_target_value(stock, context.portfolio.total_value * weight)'']"
  have "strategy_script repr stamp code_list =
      unlines (a @ [''STOCK_POOL = '' @ list_repr repr code_list] @ b)"
    unfolding strategy_script_def a_def b_def by (simp only: append.simps)
  then have "strategy_script repr stamp code_list =
      unlines a @ ((''STOCK_POOL = '' @ list_repr repr code_list) @ [CHR 0x0A]) @ unlines b"
    by (simp only: unlines_append unlines_single)
  then have "strategy_script repr stamp code_list =
      unlines a @ (''STOCK_POOL = '' @ list_repr repr code_list @ [CHR 0x0A]) @ unlines b"
    by (simp only: append_assoc)
  then show ?thesis unfolding str_in_iff by blast
qed

lemma take_order_facts:
  assumes "distinct (set_order S)" and "set (set_order S) = S"
  shows "distinct (take 20 (set_order S))"
    and "set (take 20 (set_order S)) \<subseteq> S"
    and "length (take 20 (set_order S)) = min 20 (card S)"
proof -
  show "distinct (take 20 (set_order S))" using assms(1) by simp
  show "set (take 20 (set_order S)) \<subseteq> S" using assms(2) set_take_subset [of 20 "set_order S"] by simp
  have "length (set_order S) = card S" using assms distinct_card [of "set_order S"] by simp
  then show "length (take 20 (set_order S)) = min 20 (card S)" by (simp add: min.commute)
qed


section \<open>Runs on the concrete inputs\<close>

lemma sort_one: "list_sort srt key r [x] = [x]"
proof -
  have "mset (list_sort srt key r [x]) = mset [x]" by (rule list_sort_mset)
  then show ?thesis by simp
qed

lemma scan_env_ok:
  "scan_mainline rt default_worker env_ok theme_ai =
     ([], Inr [leader_one, constituent_alpha])"
  by (simp add: scan_mainline_def mainline_constituents_def leader_part_def
     theme_ai_def default_worker_def env_ok_def score_ge_def score_number_def
     create_leader_stock_def get_stocks_from_jqdata_def filter_strong_stocks_jqdata_def
     get_akshare_realtime_data_def row_alpha_def float_or_def strong_stock_step_def lookup_name_def
     sort_one py_prefix_def leader_one_def constituent_alpha_def Let_def)

lemma dedup_leader_constituent:
  "deduplicate_and_sort rt [leader_one, constituent_alpha\<lparr>name := n\<rparr>]
     = [constituent_alpha\<lparr>name := n\<rparr>]"
  by (simp add: deduplicate_and_sort_def dedup_code_loop_def dedup_code_step_def
      leader_one_def constituent_alpha_def Let_def sort_one)

lemma run_env_ok:
  "MainlineScanWorker_run rt default_worker env_ok =
     \<lparr>logged = [], emitted = Finished [constituent_alpha] ''MongoDB + JQData''\<rparr>"
proof -
  have i: "init_jqdata env_ok = ([], True)"
    by (simp add: init_jqdata_def env_ok_def)
  have l: "find_mapped_mainlines env_ok = ([], [theme_ai])"
    by (simp add: find_mapped_mainlines_def load_mapped_mainlines_def init_mongodb_def env_ok_def)
  have m: "ml_jqdata_mapped theme_ai" by (simp add: theme_ai_def)
  have p: "py_prefix (min 1 (max_mainlines default_worker)) [theme_ai] = [theme_ai]"
    by (simp add: py_prefix_def default_worker_def)
  have st: "\<not> stop_seen env_ok 0" by (simp add: env_ok_def)
  have lp: "scan_loop rt default_worker env_ok 0 [theme_ai] =
      ([], Inr [leader_one, constituent_alpha])"
    by (simp add: scan_env_ok st)
  have d: "deduplicate_and_sort rt [leader_one, constituent_alpha] = [constituent_alpha]"
    using dedup_leader_constituent [of rt "name constituent_alpha"] by simp
  show ?thesis
    unfolding MainlineScanWorker_run_def i l
    by (simp add: scan_mapped_def m p lp d del: scan_loop.simps)
qed

lemma silent_name_lookup:
  "MainlineScanWorker_run rt default_worker env_silent =
     \<lparr>logged = [], emitted = Finished [constituent_alpha\<lparr>name := ''000001''\<rparr>] ''MongoDB + JQData''\<rparr>"
proof -
  have i: "init_jqdata env_silent = ([], True)"
    by (simp add: init_jqdata_def env_ok_def env_silent_def)
  have l: "find_mapped_mainlines env_silent = ([], [theme_ai])"
    by (simp add: find_mapped_mainlines_def load_mapped_mainlines_def init_mongodb_def env_ok_def env_silent_def)
  have m: "ml_jqdata_mapped theme_ai" by (simp add: theme_ai_def)
  have p: "py_prefix (min 1 (max_mainlines default_worker)) [theme_ai] = [theme_ai]"
    by (simp add: py_prefix_def default_worker_def)
  have st: "\<not> stop_seen env_silent 0" by (simp add: env_ok_def env_silent_def)
  have sm: "scan_mainline rt default_worker env_silent theme_ai =
      ([], Inr [leader_one, constituent_alpha\<lparr>name := ''000001''\<rparr>])"
    by (simp add: scan_mainline_def mainline_constituents_def leader_part_def
     theme_ai_def default_worker_def env_ok_def env_silent_def score_ge_def score_number_def
     create_leader_stock_def get_stocks_from_jqdata_def filter_strong_stocks_jqdata_def
     get_akshare_realtime_data_def row_alpha_def float_or_def strong_stock_step_def lookup_name_def
     sort_one py_prefix_def leader_one_def constituent_alpha_def Let_def)
  have lp: "scan_loop rt default_worker env_silent 0 [theme_ai] =
      ([], Inr [leader_one, constituent_alpha\<lparr>name := ''000001''\<rparr>])"
    by (simp add: sm st)
  show ?thesis
    unfolding MainlineScanWorker_run_def i l
    by (simp add: scan_mapped_def m p lp dedup_leader_constituent del: scan_loop.simps)
qed


section \<open>Claims\<close>

text \<open>
  C9. No two entries of a deduplicated output share an identity key (the code
  when it is non-empty, else the name): this holds for the list returned by
  \<^verbatim>\<open>_deduplicate_and_sort\<close>, for the merged list of the overview and for the
  rows of that list shown in the overview table, whatever the sort keys are
  and however the runtime arranges incomparable ones.
\<close>

theorem dedup_outputs_distinct_identity:
  "distinct (map overview_key (deduplicate_and_sort rt xs))
   \<and> distinct (map overview_key (overview_unique rt xs))
   \<and> distinct (map overview_key (overview_rows rt xs))"
proof -
  have codes: "\<And>s. s \<in> set (first_seen code {} xs) \<Longrightarrow> code s \<noteq> []"
    using first_seen_keys [of code "{}" xs] by auto
  have e: "map overview_key (first_seen code {} xs) = map code (first_seen code {} xs)"
    using codes by (simp add: overview_key_def)
  have d1: "distinct (map overview_key (first_seen code {} xs))"
    unfolding e by (rule first_seen_distinct)
  have s1: "distinct (map overview_key
      (list_sort (nan_sort rt) mainline_sort_key False (first_seen code {} xs)))"
    using d1 by (simp only: list_sort_distinct)
  have s2: "distinct (map overview_key (overview_unique rt xs))"
    using first_seen_distinct [of overview_key "{}" xs]
    by (simp only: overview_unique_eq list_sort_distinct)
  have t: "\<And>n ys. distinct (map overview_key ys) \<Longrightarrow> distinct (map overview_key (take n ys))"
    by (simp add: take_map [symmetric] del: take_map)
  show ?thesis
    using s1 s2 t by (simp add: deduplicate_and_sort_def dedup_code_loop_eq overview_rows_def)
qed

text \<open>
  C3 (as amended). For a snapshot row whose name and code are non-empty, whose
  name does not contain \<^verbatim>\<open>ST\<close> and whose columns convert to floats, the technical
  scan accepts the row exactly when its market capitalisation divided by
  100000000 is not below 30 and not above 5000, which is the case when it
  lies in [30, 5000] and also when it is NaN (a missing capitalisation stays
  NaN under the division), it has a momentum signal (change at least 5) or a
  volume signal (volume ratio at least 2), and its additive score is at least
  25; the accepted record carries that score. When no row raises, the
  accepted records, in the order of the snapshot, are sorted by descending
  score with equal scores keeping their order, and the first 20 are emitted.
\<close>

theorem tech_breakout_filter:
  assumes "row_name row \<noteq> []" and "row_code row \<noteq> []"
    and "\<not> str_in ''ST'' (row_name row)"
    and "float_or (Fin 0) (row_change row) = Inr c"
    and "float_or (Fin 1) (row_volume_ratio row) = Inr v"
    and "float_or (Fin 0) (row_turnover row) = Inr t"
    and "float_or (Fin 0) (row_total_cap row) = Inr m"
    and "rows \<noteq> []"
    and "tech_rows rt per ''AKShare realtime'' rows = Inr acc"
  shows "tech_row rt per src row =
       (if spec_accept (fdiv (round_double rt) m (Fin 100000000)) c v t
           \<or> (fdiv (round_double rt) m (Fin 100000000) = NaN
                \<and> (c \<ge> Fin 5 \<or> v \<ge> Fin 2) \<and> spec_score c v t \<ge> 25)
        then
          Inr (Some \<lparr>code = row_code row, name = row_name row,
                  source = ''tech_breakout'', data_source = src, period = per,
                  priority = (if spec_score c v t \<ge> 50 then 2 else 3), mainline_score = Fin 0,
                  change_pct = c, entry_reason = Breakout (fst (tech_signals c v t)),
                  sector = [], tech_score = Some (spec_score c v t)\<rparr>)
        else Inr None)
     \<and> fdiv (round_double rt) NaN (Fin 100000000) = NaN
     \<and> acc = concat (map (\<lambda>r. case tech_row rt per ''AKShare realtime'' r of
                               Inr (Some s) \<Rightarrow> [s] | _ \<Rightarrow> []) rows)
     \<and> emitted (TechScanWorker_run rt per (Inr (Some rows))) =
         Finished (take 20 (sort_reverse get_score acc)) ''AKShare realtime''
     \<and> mset (sort_reverse get_score acc) = mset acc
     \<and> sorted_wrt (\<lambda>a b. a \<ge> b) (map get_score (sort_reverse get_score acc))
     \<and> (\<forall>k. filter (\<lambda>x. get_score x = k) (sort_reverse get_score acc)
              = filter (\<lambda>x. get_score x = k) acc)
     \<and> length (take 20 (sort_reverse get_score acc)) = min 20 (length acc)"
proof -
  have len: "length (take 20 (sort_reverse get_score acc)) = min 20 (length acc)"
    by (simp add: sort_reverse_def min.commute)
  have run: "emitted (TechScanWorker_run rt per (Inr (Some rows))) =
         Finished (take 20 (sort_reverse get_score acc)) ''AKShare realtime''"
    using assms(8,9) by (simp add: TechScanWorker_run_def)
  have nan: "fdiv (round_double rt) NaN (Fin 100000000) = NaN" by simp
  have stable: "\<forall>k. filter (\<lambda>x. get_score x = k) (sort_reverse get_score acc)
              = filter (\<lambda>x. get_score x = k) acc"
    by (simp only: sort_reverse_stable simp_thms)
  show ?thesis
    by (intro conjI)
      (rule tech_row_numeric [OF assms(1-7)], rule nan, rule tech_rows_list [OF assms(9)],
       rule run, rule sort_reverse_mset, rule sort_reverse_descending, rule stable, rule len)
qed

theorem tech_breakout_filter_witness:
  "row_name row_alpha \<noteq> [] \<and> row_code row_alpha \<noteq> []
   \<and> \<not> str_in ''ST'' (row_name row_alpha)
   \<and> float_or (Fin 0) (row_change row_alpha) = Inr (Fin 10)
   \<and> float_or (Fin 1) (row_volume_ratio row_alpha) = Inr (Fin 1)
   \<and> float_or (Fin 0) (row_turnover row_alpha) = Inr (Fin 6)
   \<and> float_or (Fin 0) (row_total_cap row_alpha) = Inr (Fin 10000000000)
   \<and> [row_st, row_alpha, row_nocap] \<noteq> []
   \<and> tech_rows exact_runtime ''short'' ''AKShare realtime'' [row_st, row_alpha, row_nocap]
       = Inr [stock_alpha, stock_delta]
   \<and> spec_accept (fdiv (round_double exact_runtime) (Fin 10000000000) (Fin 100000000))
       (Fin 10) (Fin 1) (Fin 6)
   \<and> tech_row exact_runtime ''short'' ''AKShare realtime'' row_alpha = Inr (Some stock_alpha)
   \<and> float_or (Fin 0) (row_total_cap row_nocap) = Inr NaN
   \<and> tech_row exact_runtime ''short'' ''AKShare realtime'' row_nocap = Inr (Some stock_delta)
   \<and> emitted (TechScanWorker_run exact_runtime ''short'' (Inr (Some [row_st, row_alpha, row_nocap])))
       = Finished [stock_delta, stock_alpha] ''AKShare realtime''"
proof -
  have h1: "row_name row_alpha \<noteq> []" and h2: "row_code row_alpha \<noteq> []"
    and h3: "\<not> str_in ''ST'' (row_name row_alpha)"
    and h4: "float_or (Fin 0) (row_change row_alpha) = Inr (Fin 10)"
    and h5: "float_or (Fin 1) (row_volume_ratio row_alpha) = Inr (Fin 1)"
    and h6: "float_or (Fin 0) (row_turnover row_alpha) = Inr (Fin 6)"
    and h7: "float_or (Fin 0) (row_total_cap row_alpha) = Inr (Fin 10000000000)"
    by (simp_all add: row_alpha_def float_or_def)
  have n1: "row_name row_nocap \<noteq> []" and n2: "row_code row_nocap \<noteq> []"
    and n3: "\<not> str_in ''ST'' (row_name row_nocap)"
    and n4: "float_or (Fin 0) (row_change row_nocap) = Inr (Fin 10)"
    and n5: "float_or (Fin 1) (row_volume_ratio row_nocap) = Inr (Fin 3)"
    and n6: "float_or (Fin 0) (row_turnover row_nocap) = Inr (Fin 0)"
    and n7: "float_or (Fin 0) (row_total_cap row_nocap) = Inr NaN"
    by (simp_all add: row_nocap_def float_or_def)
  have h8: "[row_st, row_alpha, row_nocap] \<noteq> []" by simp
  have mc: "fdiv (round_double exact_runtime) (Fin 10000000000) (Fin 100000000) = Fin 100"
    by (simp add: exact_runtime_def)
  have acc: "spec_accept (Fin 100) (Fin 10) (Fin 1) (Fin 6)"
    by (simp add: spec_accept_def spec_score_def)
  have sc: "spec_score (Fin 10) (Fin 1) (Fin 6) = 50" by (simp add: spec_score_def)
  have sg: "fst (tech_signals (Fin 10) (Fin 1) (Fin 6)) = [LimitUp, ActiveTurnover]"
    by (simp add: tech_signals_def change_signal_def volume_signal_def turnover_signal_def)
  have sc2: "spec_score (Fin 10) (Fin 3) (Fin 0) = 65" by (simp add: spec_score_def)
  have sg2: "fst (tech_signals (Fin 10) (Fin 3) (Fin 0)) = [LimitUp, Volume3]"
    by (simp add: tech_signals_def change_signal_def volume_signal_def turnover_signal_def)
  have st: "tech_row exact_runtime ''short'' ''AKShare realtime'' row_st = Inr None"
    by (simp add: tech_row_def row_st_def)
  have al: "tech_row exact_runtime ''short'' ''AKShare realtime'' row_alpha = Inr (Some stock_alpha)"
    using tech_row_numeric [OF h1 h2 h3 h4 h5 h6 h7, of exact_runtime "''short''" "''AKShare realtime''"]
      acc sc sg
    by (simp add: exact_runtime_def stock_alpha_def row_alpha_def)
  have nc: "tech_row exact_runtime ''short'' ''AKShare realtime'' row_nocap = Inr (Some stock_delta)"
    using tech_row_numeric [OF n1 n2 n3 n4 n5 n6 n7, of exact_runtime "''short''" "''AKShare realtime''"]
      sc2 sg2
    by (simp add: exact_runtime_def stock_delta_def row_nocap_def)
  have h9: "tech_rows exact_runtime ''short'' ''AKShare realtime'' [row_st, row_alpha, row_nocap]
      = Inr [stock_alpha, stock_delta]"
    by (simp add: st al nc)
  have srt: "take 20 (sort_reverse get_score [stock_alpha, stock_delta]) = [stock_delta, stock_alpha]"
    by (simp add: sort_reverse_def get_score_def stock_alpha_def stock_delta_def)
  note w = tech_breakout_filter [OF h1 h2 h3 h4 h5 h6 h7 h8 h9, of "''AKShare realtime''", unfolded srt mc]
  from w have "emitted (TechScanWorker_run exact_runtime ''short''
        (Inr (Some [row_st, row_alpha, row_nocap])))
       = Finished [stock_delta, stock_alpha] ''AKShare realtime''"
    by blast
  with h1 h2 h3 h4 h5 h6 h7 h9 acc al n7 nc show ?thesis
    by (simp only: mc simp_thms h8)
qed

text \<open>
  The claim as it is stated fails on a row whose name contains \<^verbatim>\<open>ST\<close>: the row
  meets every threshold and is skipped.
\<close>

theorem tech_breakout_filter_counterexample:
  "float_or (Fin 0) (row_change row_st) = Inr (Fin 10)
   \<and> float_or (Fin 1) (row_volume_ratio row_st) = Inr (Fin 3)
   \<and> float_or (Fin 0) (row_turnover row_st) = Inr (Fin 6)
   \<and> float_or (Fin 0) (row_total_cap row_st) = Inr (Fin 10000000000)
   \<and> spec_accept (fdiv (round_double exact_runtime) (Fin 10000000000) (Fin 100000000))
       (Fin 10) (Fin 3) (Fin 6)
   \<and> tech_row exact_runtime ''short'' ''AKShare realtime'' row_st = Inr None
   \<and> emitted (TechScanWorker_run exact_runtime ''short'' (Inr (Some [row_st]))) =
        Finished [] ''AKShare realtime''"
  by (simp add: row_st_def float_or_def spec_accept_def spec_score_def tech_row_def
      TechScanWorker_run_def sort_reverse_def exact_runtime_def)

text \<open>
  C10. A snapshot row whose name contains \<^verbatim>\<open>ST\<close>, or whose name or code is empty,
  is skipped whatever its columns hold (they are not even converted), and no
  record emitted by the technical scan has such a name or code.
\<close>

theorem tech_scan_excludes_st:
  "(row_name row = [] \<or> row_code row = [] \<or> str_in ''ST'' (row_name row)
      \<longrightarrow> tech_row rt per src row = Inr None)
   \<and> (\<forall>s \<in> set (finished_list (emitted (TechScanWorker_run rt per ak))).
        name s \<noteq> [] \<and> code s \<noteq> [] \<and> \<not> str_in ''ST'' (name s))"
proof -
  have skip: "row_name row = [] \<or> row_code row = [] \<or> str_in ''ST'' (row_name row)
      \<longrightarrow> tech_row rt per src row = Inr None"
    by (simp add: tech_row_def)
  have out: "name s \<noteq> [] \<and> code s \<noteq> [] \<and> \<not> str_in ''ST'' (name s)"
    if "s \<in> set (finished_list (emitted (TechScanWorker_run rt per ak)))" for s
    using tech_run_cases [of rt per ak]
  proof
    assume "emitted (TechScanWorker_run rt per ak) = Finished get_mock_tech_stocks ''mock''"
    with that mock_tech_names show ?thesis by (simp add: finished_list_def)
  next
    assume "\<exists>rows acc. ak = Inr (Some rows) \<and> rows \<noteq> []
        \<and> tech_rows rt per ''AKShare realtime'' rows = Inr acc
        \<and> emitted (TechScanWorker_run rt per ak) =
            Finished (take 20 (sort_reverse get_score acc)) ''AKShare realtime''"
    then obtain rows acc where acc: "tech_rows rt per ''AKShare realtime'' rows = Inr acc"
      and em: "emitted (TechScanWorker_run rt per ak) =
            Finished (take 20 (sort_reverse get_score acc)) ''AKShare realtime''"
      by blast
    from that em have "s \<in> set (take 20 (sort_reverse get_score acc))"
      by (simp add: finished_list_def)
    then have "s \<in> set (sort_reverse get_score acc)" by (rule in_set_takeD)
    then have "s \<in> set acc" by (simp add: sort_reverse_def)
    with tech_rows_set [OF acc] obtain r where "tech_row rt per ''AKShare realtime'' r = Inr (Some s)"
      by blast
    from tech_row_Some [OF this] show ?thesis by simp
  qed
  from skip out show ?thesis by blast
qed

theorem tech_scan_excludes_st_witness:
  "str_in ''ST'' (row_name row_st)
   \<and> tech_row exact_runtime ''short'' ''AKShare realtime'' row_st = Inr None
   \<and> finished_list (emitted (TechScanWorker_run exact_runtime ''short''
         (Inr (Some [row_st, row_alpha])))) = [stock_alpha]
   \<and> list_all (\<lambda>s. name s \<noteq> [] \<and> code s \<noteq> [] \<and> \<not> str_in ''ST'' (name s))
       (finished_list (emitted (TechScanWorker_run exact_runtime ''short''
          (Inr (Some [row_st, row_alpha])))))"
proof -
  have h: "str_in ''ST'' (row_name row_st)" by (simp add: row_st_def)
  have al: "tech_row exact_runtime ''short'' ''AKShare realtime'' row_alpha = Inr (Some stock_alpha)"
    by (simp add: tech_row_def row_alpha_def float_or_def tech_signals_def change_signal_def
        volume_signal_def turnover_signal_def stock_alpha_def exact_runtime_def)
  have st: "tech_row exact_runtime ''short'' ''AKShare realtime'' row_st = Inr None"
    using tech_scan_excludes_st [of row_st exact_runtime "''short''" "''AKShare realtime''"] h
    by blast
  have run: "finished_list (emitted (TechScanWorker_run exact_runtime ''short''
         (Inr (Some [row_st, row_alpha])))) = [stock_alpha]"
    by (simp add: TechScanWorker_run_def st al sort_reverse_def finished_list_def)
  show ?thesis
    using tech_scan_excludes_st [of row_st exact_runtime "''short''" "''AKShare realtime''"
        "Inr (Some [row_st, row_alpha])"]
      h st run
    by (simp add: list_all_iff)
qed

text \<open>
  C6 (as amended). In every state the panel can reach from its initial state,
  by clicks and by completion signals in any order the event loop can deliver
  them, at most one of the four workers of the overview scan is running, and
  exactly one while a scan is in progress; the four workers are started in
  rounds of the fixed order mainline, technical, ETF, external; and every
  started worker but the running one has had its completion handler run, so a
  worker is started only after the handler of the one before it. The worker of
  the theme identification never runs beside them. The workers that the
  buttons of the single tabs start are not part of this sequence: they run
  beside it and are counted with it in the number of running workers.
\<close>

theorem overview_scans_run_in_sequence:
  assumes "panel_run rt ins init_panel = Some p"
  shows "length (running_overview p) \<le> 1
     \<and> (\<not> scan_all_btn_enabled p \<and> workers p Identification \<noteq> Some Running
          \<longrightarrow> length (running_overview p) = 1)
     \<and> (scan_all_btn_enabled p \<longrightarrow> running_overview p = [])
     \<and> (workers p Identification = Some Running \<longrightarrow> running_overview p = [])
     \<and> started p = handled p @ running_overview p
     \<and> (\<exists>n k. k \<le> 4 \<and> started p = concat (replicate n overview_chain) @ take k overview_chain)
     \<and> running_workers p =
         length (running_overview p)
         + (if workers p Identification = Some Running then 1 else 0)
         + length (single_workers p)"
proof -
  from run_inv [OF init_inv assms] obtain n k where ph: "phase n k p"
    unfolding chain_inv_def by blast
  then have k: "k \<le> 4" by (simp add: phase_def)
  have ident: "workers p Identification = Some Running \<longrightarrow> running_overview p = []"
    using phase_ident_running [OF ph] ph
    by (auto simp: phase_def is_running_def running_overview_eq)
  have count: "running_workers p =
         length (running_overview p)
         + (if workers p Identification = Some Running then 1 else 0)
         + length (single_workers p)"
    by (simp add: running_workers_def running_overview_def)
  from phase_facts [OF ph] k ident count show ?thesis by blast
qed

theorem overview_scans_run_in_sequence_witness:
  "panel_run exact_runtime scan_inputs init_panel \<noteq> None
   \<and> running_overview (the (panel_run exact_runtime scan_inputs init_panel)) = [OverviewEtf]
   \<and> started (the (panel_run exact_runtime scan_inputs init_panel))
       = [OverviewMainline, OverviewTech, OverviewEtf]
   \<and> handled (the (panel_run exact_runtime scan_inputs init_panel))
       = [OverviewMainline, OverviewTech]
   \<and> length (running_overview (the (panel_run exact_runtime scan_inputs init_panel))) \<le> 1
   \<and> running_workers (the (panel_run exact_runtime scan_inputs init_panel)) = 2"
proof -
  define p where "p = the (panel_run exact_runtime scan_inputs init_panel)"
  have run: "panel_run exact_runtime scan_inputs init_panel = Some p"
    unfolding p_def
    by (simp add: scan_inputs_def init_panel_def panel_step_def scan_all_def do_scan_all_def
        start_mainline_scan_def start_worker_def scan_single_def on_overview_mainline_done_def
        handling_def start_tech_scan_def on_overview_tech_done_def start_etf_scan_def)
  have st: "started p = [OverviewMainline, OverviewTech, OverviewEtf]"
    and hd: "handled p = [OverviewMainline, OverviewTech]"
    and sw: "single_workers p = [TechTab]"
    and idn: "workers p Identification = None"
    unfolding p_def
    by (simp_all add: scan_inputs_def init_panel_def panel_step_def scan_all_def do_scan_all_def
        start_mainline_scan_def start_worker_def scan_single_def on_overview_mainline_done_def
        handling_def start_tech_scan_def on_overview_tech_done_def start_etf_scan_def)
  from overview_scans_run_in_sequence [OF run] st hd
  have ro: "running_overview p = [OverviewEtf]" by simp
  from overview_scans_run_in_sequence [OF run]
  have "running_workers p =
         length (running_overview p)
         + (if workers p Identification = Some Running then 1 else 0)
         + length (single_workers p)"
    by blast
  with ro sw idn have rw: "running_workers p = 2" by simp
  from ro have "length (running_overview p) \<le> 1" by simp
  with run st hd ro rw show ?thesis unfolding p_def [symmetric] by simp
qed

text \<open>
  The claim as it is stated fails on the number of workers: while the first
  worker of a full scan is running, a click on the scan button of the
  technical tab and one on that of the ETF tab start two more workers, and
  three background workers run at once.
\<close>

theorem overview_scans_run_in_sequence_counterexample:
  "panel_run exact_runtime [ClickScanAll True False, ClickSingle TechTab True, ClickSingle EtfTab True]
       init_panel \<noteq> None
   \<and> running_overview (the (panel_run exact_runtime
         [ClickScanAll True False, ClickSingle TechTab True, ClickSingle EtfTab True] init_panel))
       = [OverviewMainline]
   \<and> single_workers (the (panel_run exact_runtime
         [ClickScanAll True False, ClickSingle TechTab True, ClickSingle EtfTab True] init_panel))
       = [TechTab, EtfTab]
   \<and> running_workers (the (panel_run exact_runtime
         [ClickScanAll True False, ClickSingle TechTab True, ClickSingle EtfTab True] init_panel))
       = 3"
  by (simp add: init_panel_def panel_step_def scan_all_def do_scan_all_def
      start_mainline_scan_def start_worker_def scan_single_def running_overview_def
      overview_chain_def running_workers_def)







text \<open>
  C8. The table that the merge of the overview shows is a function of the
  merged list alone, and delivering the same list to the handler a second
  time, after the first delivery has changed the accumulated list, gives the
  same table. Both operations return their own output unchanged when they are
  run on it. (\<^verbatim>\<open>_deduplicate_and_sort\<close> reads nothing but its argument, so it is a
  function of the list by construction.)
\<close>

theorem dedup_is_deterministic:
  "overview_table (on_overview_external_done rt stocks src p) = overview_rows rt (all_stocks p @ stocks)
   \<and> overview_table (on_overview_external_done rt stocks src'
                        (on_overview_external_done rt stocks src p))
       = overview_table (on_overview_external_done rt stocks src p)
   \<and> deduplicate_and_sort rt (deduplicate_and_sort rt xs) = deduplicate_and_sort rt xs
   \<and> overview_rows rt (overview_rows rt xs) = overview_rows rt xs"
proof -
  have u: "overview_unique rt ((all_stocks p @ stocks) @ stocks) = overview_unique rt (all_stocks p @ stocks)"
    by (simp only: overview_unique_eq first_seen_twice)
  have t: "overview_table (on_overview_external_done rt stocks src q) = overview_rows rt (all_stocks q @ stocks)"
    for src q
    by (simp add: on_overview_external_done_def overview_rows_def)
  have a: "all_stocks (on_overview_external_done rt stocks src p) = all_stocks p @ stocks"
    by (simp add: on_overview_external_done_def)
  have "overview_table (on_overview_external_done rt stocks src'
                          (on_overview_external_done rt stocks src p))
      = overview_rows rt ((all_stocks p @ stocks) @ stocks)"
    by (simp only: t a)
  also have "\<dots> = overview_rows rt (all_stocks p @ stocks)"
    by (simp only: overview_rows_def u)
  finally have twice: "overview_table (on_overview_external_done rt stocks src'
                          (on_overview_external_done rt stocks src p))
       = overview_table (on_overview_external_done rt stocks src p)"
    by (simp only: t)
  show ?thesis
    by (intro conjI) (rule t, rule twice, rule deduplicate_and_sort_idem, rule overview_rows_idem)
qed

text \<open>
  C2. The leader of a scanned theme is put into the list of the theme, and the
  constituents that follow it obey the thresholds (score at least 60, change
  above -5 or score at least 70, at most the maximum per theme: the facts
  about the mainline scan above). But the leader's record has no code, and
  the deduplication at the end of the scan keeps only records with a code, so
  the scan never emits a leader: here a theme with the leader
  \<^verbatim>\<open>Leader One\<close> and one constituent is scanned with every call succeeding, and
  the output is the constituent alone, on every runtime.
\<close>

theorem leader_dropped_from_scan_output:
  "scan_mainline rt default_worker env_ok theme_ai =
       ([], Inr [leader_one, constituent_alpha])
   \<and> name leader_one = ml_leader_stock theme_ai
   \<and> MainlineScanWorker_run rt default_worker env_ok =
       \<lparr>logged = [], emitted = Finished [constituent_alpha] ''MongoDB + JQData''\<rparr>
   \<and> leader_one \<notin> set [constituent_alpha]"
proof -
  have n: "name leader_one = ml_leader_stock theme_ai"
    by (simp add: leader_one_def theme_ai_def)
  have x: "leader_one \<notin> set [constituent_alpha]"
    by (simp add: leader_one_def constituent_alpha_def)
  from scan_env_ok n run_env_ok x show ?thesis by blast
qed

text \<open>
  C5 (as amended). The four scan workers of the panel end every run by
  emitting \<^verbatim>\<open>finished\<close>, whatever their collaborators do. When the login of the
  mainline scan raises (configuration, authentication or permission query),
  when an exception leaves its loop over the themes, when the snapshot call
  of the technical scan raises or an exception leaves its loop over the rows,
  when the fetch, the sort or the loop of the ETF scan raises, and when the
  parser of the external files raises, the exception is logged and the
  hard-coded mock list is emitted. Inside the mainline scan a failed
  connection to or read of the document store, a failed read of the score
  file, a failed creation of the mapper or mapping of a theme, a failed
  constituent query, a failed market snapshot (the call or the conversion of
  a row) and a failed price query are logged and give an empty result; a
  failed look-up of a display name is caught without a log record and the name
  falls back. The factor filter catches and logs the failure of its import,
  of its date query and of the factor computation too, but hands it to its
  caller through the signal \<^verbatim>\<open>error(str)\<close>, as it does when no stock was
  obtained; a failed constituent query of one theme is logged and the theme
  is skipped.
\<close>

theorem failures_are_caught:
  assumes "filter (\<lambda>m. ml_jqdata_mapped m \<or> ml_jqdata_code m \<noteq> []) ms \<noteq> []"
    and "scan_loop rt self env 0
          (py_prefix (min (int (length (filter (\<lambda>m. ml_jqdata_mapped m \<or> ml_jqdata_code m \<noteq> []) ms)))
                       (max_mainlines self))
             (filter (\<lambda>m. ml_jqdata_mapped m \<or> ml_jqdata_code m \<noteq> []) ms)) = (l4, Inl (Exception lmsg))"
    and "rows \<noteq> []"
    and "tech_rows rt per ''AKShare realtime'' rows = Inl (Exception tmsg)"
    and "erows \<noteq> []"
    and "sv erows = Inr sorted_rows"
    and "etf_rows rt (take 30 sorted_rows) = Inl (Exception emsg)"
    and "snd (snd (collect_stocks fself fenv)) \<noteq> []"
    and "snd (snd (collect_stocks gself genv)) = []"
  shows "(\<exists>xs d. emitted (MainlineScanWorker_run rt self env) = Finished xs d)
     \<and> (\<exists>xs d. emitted (TechScanWorker_run rt per ak) = Finished xs d)
     \<and> (\<exists>xs d. emitted (ETFScanWorker_run rt eak sv) = Finished xs d)
     \<and> (\<exists>xs d. emitted (ExternalParseWorker_run pa) = Finished xs d)
     \<and> MainlineScanWorker_run rt self (env\<lparr>jq_config := Inl (Exception msg)\<rparr>) =
         \<lparr>logged = [(Error, msg)],
          emitted = Finished get_mock_mainline_stocks ''mock (JQData unavailable)''\<rparr>
     \<and> MainlineScanWorker_run rt self
           (env\<lparr>jq_config := Inr True, jq_authenticate := Inl (Exception msg)\<rparr>) =
         \<lparr>logged = [(Error, msg)],
          emitted = Finished get_mock_mainline_stocks ''mock (JQData unavailable)''\<rparr>
     \<and> MainlineScanWorker_run rt self
           (env\<lparr>jq_config := Inr True, jq_authenticate := Inr True,
                jq_permission := Inl (Exception msg)\<rparr>) =
         \<lparr>logged = [(Error, msg)],
          emitted = Finished get_mock_mainline_stocks ''mock (JQData unavailable)''\<rparr>
     \<and> scan_mapped rt self env l ms =
         \<lparr>logged = l @ l4 @ [(Error, lmsg)],
          emitted = Finished get_mock_mainline_stocks ''mock (exception)''\<rparr>
     \<and> load_mapped_mainlines (env\<lparr>mongo_connect := Inl (Exception msg)\<rparr>) = ([(Warning, msg)], [])
     \<and> load_mapped_mainlines (env\<lparr>mongo_connect := Inr (), mongo_latest := Inl (Exception msg)\<rparr>)
         = ([(Warning, msg)], [])
     \<and> load_mainline_from_file (env\<lparr>file_exists := True, file_load := Inl (Exception msg)\<rparr>)
         = ([(Warning, msg)], [])
     \<and> map_mainlines_to_jqdata (env\<lparr>mapper_create := Inl (Exception msg)\<rparr>) ths
         = ([(Error, msg)], [])
     \<and> map_mainlines_to_jqdata
           (env\<lparr>mapper_create := Inr (), map_mainline := \<lambda>n. Inl (Exception msg)\<rparr>)
           (th\<lparr>ml_name := c # cs\<rparr> # ths)
         = ([(Error, msg)], [])
     \<and> get_stocks_from_jqdata (env\<lparr>concept_stocks := \<lambda>c. Inl (Exception msg)\<rparr>) jc ''concept'' =
         ([(Warning, msg)], [])
     \<and> get_stocks_from_jqdata (env\<lparr>industry_stocks := \<lambda>c. Inl (Exception msg)\<rparr>) jc ''industry'' =
         ([(Warning, msg)], [])
     \<and> get_akshare_realtime_data (env\<lparr>spot := Inl (Exception msg)\<rparr>) = ([(Warning, msg)], None)
     \<and> get_akshare_realtime_data
           (env\<lparr>spot := Inr (Some (srow\<lparr>row_change := Junk txt\<rparr> # srows))\<rparr>)
         = ([(Warning, ''ValueError'')], None)
     \<and> get_stock_price_jqdata rt (env\<lparr>get_price := \<lambda>c. Inl (Exception msg)\<rparr>) jc
         = ([(Debug, msg)], None)
     \<and> lookup_name (env\<lparr>display_name := \<lambda>c. Inl (Exception msg)\<rparr>) jc fallback = fallback
     \<and> TechScanWorker_run rt per (Inl (Exception msg)) =
         \<lparr>logged = [(Warning, msg)], emitted = Finished get_mock_tech_stocks ''mock''\<rparr>
     \<and> TechScanWorker_run rt per (Inr (Some rows)) =
         \<lparr>logged = [(Error, tmsg)], emitted = Finished get_mock_tech_stocks ''mock''\<rparr>
     \<and> ETFScanWorker_run rt (Inl (Exception msg)) sv =
         \<lparr>logged = [(Error, msg)], emitted = Finished get_mock_etfs ''mock''\<rparr>
     \<and> ETFScanWorker_run rt (Inr (Some erows)) (\<lambda>r. Inl (Exception msg)) =
         \<lparr>logged = [(Error, msg)], emitted = Finished get_mock_etfs ''mock''\<rparr>
     \<and> ETFScanWorker_run rt (Inr (Some erows)) sv =
         \<lparr>logged = [(Error, emsg)], emitted = Finished get_mock_etfs ''mock''\<rparr>
     \<and> ExternalParseWorker_run (Inl (Exception msg)) =
         \<lparr>logged = [(Debug, msg)], emitted = Finished get_mock_external_stocks ''sample''\<rparr>
     \<and> FactorFilterWorker_run fself (fenv\<lparr>jq_import := Inl (Exception msg)\<rparr>) =
         \<lparr>logged = [(Error, msg)], emitted = Failed msg\<rparr>
     \<and> FactorFilterWorker_run fself
           (fenv\<lparr>jq_import := Inr (), available_date := Inl (Exception msg)\<rparr>) =
         \<lparr>logged = [(Error, msg)], emitted = Failed msg\<rparr>
     \<and> FactorFilterWorker_run fself
           (fenv\<lparr>jq_import := Inr (), available_date := Inr (),
                 factor_integration_available := True,
                 process_candidate_pool := \<lambda>stocks scores n. Inl (Exception msg)\<rparr>) =
         \<lparr>logged = fst (collect_stocks fself fenv) @ [(Error, msg)], emitted = Failed msg\<rparr>
     \<and> FactorFilterWorker_run gself (genv\<lparr>jq_import := Inr (), available_date := Inr ()\<rparr>) =
         \<lparr>logged = fst (collect_stocks gself genv), emitted = Failed ''no stocks were obtained''\<rparr>
     \<and> fetch_step (fenv\<lparr>fe_concept_stocks := \<lambda>c. Inl (Exception msg),
                        fe_industry_stocks := \<lambda>c. Inl (Exception msg)\<rparr>) jc (fl, fd) =
         (fl @ [(Warning, msg)], fd)"
  by (intro conjI)
    (rule mainline_run_finished, rule tech_run_finished, rule etf_run_finished,
     rule external_run_finished, rule mainline_login_failures(1),
     rule mainline_login_failures(2), rule mainline_login_failures(3),
     rule mainline_loop_failure [OF assms(1,2)],
     rule mainline_source_failures(1), rule mainline_source_failures(2),
     rule mainline_source_failures(3), rule mainline_source_failures(4),
     rule mainline_source_failures(5),
     rule mainline_query_failures(1), rule mainline_query_failures(2),
     rule mainline_query_failures(3), rule mainline_query_failures(4),
     rule mainline_query_failures(5), rule mainline_query_failures(6),
     rule tech_failures(1), rule tech_failures(2) [OF assms(3,4)],
     rule etf_failures(1), rule etf_failures(2) [OF assms(5)],
     rule etf_failures(3) [where sv = sv and erows = erows, OF assms(5,6,7)], rule external_failure,
     rule factor_failures(1), rule factor_failures(2),
     rule factor_compute_failure [OF assms(8)], rule factor_no_stocks [OF assms(9)],
     rule factor_fetch_failure)

theorem failures_are_caught_witness:
  "filter (\<lambda>m. ml_jqdata_mapped m \<or> ml_jqdata_code m \<noteq> []) [theme_bad] = [theme_bad]
   \<and> scan_loop exact_runtime default_worker env_ok 0 [theme_bad] = ([], Inl (Exception ''TypeError''))
   \<and> tech_rows exact_runtime ''short'' ''AKShare realtime'' [row_junk] = Inl (Exception ''ValueError'')
   \<and> sort_unchanged [etf_junk] = Inr [etf_junk]
   \<and> etf_rows exact_runtime (take 30 [etf_junk]) = Inl (Exception ''ValueError'')
   \<and> snd (snd (collect_stocks factor_worker_default factor_env_no_sdk)) = [''000001.XSHE'']
   \<and> fst (collect_stocks factor_worker_default factor_env_no_sdk) = []
   \<and> snd (snd (collect_stocks (factor_worker_default\<lparr>fw_mainlines := []\<rparr>) factor_env_no_sdk)) = []
   \<and> scan_mapped exact_runtime default_worker env_ok [] [theme_bad] =
       \<lparr>logged = [(Error, ''TypeError'')],
        emitted = Finished get_mock_mainline_stocks ''mock (exception)''\<rparr>
   \<and> TechScanWorker_run exact_runtime ''short'' (Inr (Some [row_junk])) =
       \<lparr>logged = [(Error, ''ValueError'')], emitted = Finished get_mock_tech_stocks ''mock''\<rparr>
   \<and> ETFScanWorker_run exact_runtime (Inr (Some [etf_junk])) sort_unchanged =
       \<lparr>logged = [(Error, ''ValueError'')], emitted = Finished get_mock_etfs ''mock''\<rparr>
   \<and> FactorFilterWorker_run factor_worker_default
         (factor_env_no_sdk\<lparr>jq_import := Inr (), available_date := Inr (),
            factor_integration_available := True,
            process_candidate_pool := \<lambda>stocks scores n. Inl (Exception ''no data'')\<rparr>) =
       \<lparr>logged = [(Error, ''no data'')], emitted = Failed ''no data''\<rparr>"
proof -
  have f: "filter (\<lambda>m. ml_jqdata_mapped m \<or> ml_jqdata_code m \<noteq> []) [theme_bad] = [theme_bad]"
    by (simp add: theme_bad_def theme_ai_def)
  have h1: "filter (\<lambda>m. ml_jqdata_mapped m \<or> ml_jqdata_code m \<noteq> []) [theme_bad] \<noteq> []"
    by (simp only: f) simp
  have p: "py_prefix (min (int (length [theme_bad])) (max_mainlines default_worker)) [theme_bad]
      = [theme_bad]"
    by (simp add: py_prefix_def default_worker_def)
  have sm: "scan_mainline exact_runtime default_worker env_ok theme_bad
      = ([], Inl (Exception ''TypeError''))"
    by (simp add: scan_mainline_def theme_bad_def theme_ai_def score_ge_def)
  have st: "\<not> stop_seen env_ok 0" by (simp add: env_ok_def)
  have lp: "scan_loop exact_runtime default_worker env_ok 0 [theme_bad]
      = ([], Inl (Exception ''TypeError''))"
    by (simp add: sm st)
  have h2: "scan_loop exact_runtime default_worker env_ok 0
          (py_prefix (min (int (length (filter (\<lambda>m. ml_jqdata_mapped m \<or> ml_jqdata_code m \<noteq> []) [theme_bad])))
                       (max_mainlines default_worker))
             (filter (\<lambda>m. ml_jqdata_mapped m \<or> ml_jqdata_code m \<noteq> []) [theme_bad]))
        = ([], Inl (Exception ''TypeError''))"
    by (simp only: f p lp)
  have h3: "[row_junk] \<noteq> []" by simp
  have h4: "tech_rows exact_runtime ''short'' ''AKShare realtime'' [row_junk]
      = Inl (Exception ''ValueError'')"
    by (simp add: tech_row_def row_junk_def float_or_def)
  have h5: "[etf_junk] \<noteq> []" by simp
  have h6: "sort_unchanged [etf_junk] = Inr [etf_junk]" by (simp add: sort_unchanged_def)
  have h7: "etf_rows exact_runtime (take 30 [etf_junk]) = Inl (Exception ''ValueError'')"
    by (simp add: etf_of_row_def etf_junk_def float_or_def)
  have c1: "collect_stocks factor_worker_default factor_env_no_sdk =
      ([], [''000001.XSHE'' \<mapsto> \<lparr>cand_mainline = ''AI'', cand_mainline_score = Fin 85,
              cand_jq_code = ''SC0363''\<rparr>], [''000001.XSHE''])"
    by (simp add: collect_stocks_def factor_worker_default_def factor_env_no_sdk_def
        fetch_step_def merge_mainline_def merge_code_def Let_def)
  have c2: "collect_stocks (factor_worker_default\<lparr>fw_mainlines := []\<rparr>) factor_env_no_sdk =
      ([], Map.empty, [])"
    by (simp add: collect_stocks_def factor_worker_default_def)
  have k1: "snd (snd (collect_stocks factor_worker_default factor_env_no_sdk)) = [''000001.XSHE'']"
    and k2: "fst (collect_stocks factor_worker_default factor_env_no_sdk) = []"
    by (simp_all only: c1 fst_conv snd_conv)
  have k3: "snd (snd (collect_stocks (factor_worker_default\<lparr>fw_mainlines := []\<rparr>)
      factor_env_no_sdk)) = []"
    by (simp only: c2 fst_conv snd_conv)
  have h8: "snd (snd (collect_stocks factor_worker_default factor_env_no_sdk)) \<noteq> []"
    by (simp only: k1) simp
  note w = failures_are_caught [where sv = sort_unchanged and erows = "[etf_junk]"
      and l = "[]" and msg = "''no data''", OF h1 h2 h3 h4 h5 h6 h7 h8 k3]
  from w have a: "scan_mapped exact_runtime default_worker env_ok [] [theme_bad] =
       \<lparr>logged = [] @ [] @ [(Error, ''TypeError'')],
        emitted = Finished get_mock_mainline_stocks ''mock (exception)''\<rparr>"
    and b: "TechScanWorker_run exact_runtime ''short'' (Inr (Some [row_junk])) =
       \<lparr>logged = [(Error, ''ValueError'')], emitted = Finished get_mock_tech_stocks ''mock''\<rparr>"
    and c: "ETFScanWorker_run exact_runtime (Inr (Some [etf_junk])) sort_unchanged =
       \<lparr>logged = [(Error, ''ValueError'')], emitted = Finished get_mock_etfs ''mock''\<rparr>"
    and d: "FactorFilterWorker_run factor_worker_default
         (factor_env_no_sdk\<lparr>jq_import := Inr (), available_date := Inr (),
            factor_integration_available := True,
            process_candidate_pool := \<lambda>stocks scores n. Inl (Exception ''no data'')\<rparr>) =
       \<lparr>logged = fst (collect_stocks factor_worker_default factor_env_no_sdk)
                  @ [(Error, ''no data'')], emitted = Failed ''no data''\<rparr>"
    by blast+
  from a have a': "scan_mapped exact_runtime default_worker env_ok [] [theme_bad] =
       \<lparr>logged = [(Error, ''TypeError'')],
        emitted = Finished get_mock_mainline_stocks ''mock (exception)''\<rparr>"
    by (simp only: append_Nil)
  from d have d': "FactorFilterWorker_run factor_worker_default
         (factor_env_no_sdk\<lparr>jq_import := Inr (), available_date := Inr (),
            factor_integration_available := True,
            process_candidate_pool := \<lambda>stocks scores n. Inl (Exception ''no data'')\<rparr>) =
       \<lparr>logged = [(Error, ''no data'')], emitted = Failed ''no data''\<rparr>"
    by (simp only: k2 append_Nil)
  from f lp h4 h6 h7 k1 k2 k3 a' b c d' show ?thesis by blast
qed

text \<open>
  The claim as it is stated fails in two places. The factor filter does not
  replace a failure by data: with the data SDK missing it emits \<^verbatim>\<open>error\<close> with
  the message, for its caller to handle. And a failure is not always logged:
  when the look-ups of the display names time out, the mainline scan emits its
  result under the fallback name and its log stays empty.
\<close>

theorem failures_are_caught_counterexample:
  "FactorFilterWorker_run factor_worker_default factor_env_no_sdk =
     \<lparr>logged = [(Error, ''No module named jqdatasdk'')],
      emitted = Failed ''No module named jqdatasdk''\<rparr>
   \<and> display_name env_silent ''000001.XSHE'' = Inl (Exception ''timeout'')
   \<and> MainlineScanWorker_run exact_runtime default_worker env_silent =
     \<lparr>logged = [],
      emitted = Finished [constituent_alpha\<lparr>name := ''000001''\<rparr>] ''MongoDB + JQData''\<rparr>"
proof -
  have "FactorFilterWorker_run factor_worker_default factor_env_no_sdk =
     \<lparr>logged = [(Error, ''No module named jqdatasdk'')],
      emitted = Failed ''No module named jqdatasdk''\<rparr>"
    by (simp add: FactorFilterWorker_run_def factor_env_no_sdk_def)
  moreover have "display_name env_silent ''000001.XSHE'' = Inl (Exception ''timeout'')"
    by (simp add: env_silent_def)
  ultimately show ?thesis using silent_name_lookup [of exact_runtime] by blast
qed

text \<open>
  C7 (as amended). When the mainline, technical and external tables hold at
  least one code, code generation fills the fixed template with the time
  stamp, the number of codes and the literal list of at most 20 of the
  collected codes, without duplicates, shows it in the preview and writes it
  to the file \<^verbatim>\<open>pool_strategy_<day>.py\<close> of a fixed directory, where the day is the
  day of the generation; nothing else is written. When the tables hold no
  code, nothing is written and the preview is unchanged. The hypotheses say
  that the order in which the set of codes is walked lists each code once.
\<close>

theorem strategy_script_written:
  assumes "distinct (set_order (collected_codes p))"
    and "set (set_order (collected_codes p)) = collected_codes p"
  shows "generate_code set_order repr clk (p, files) =
       (if collected_codes p = {} then (p, files)
        else (p\<lparr>code_preview :=
                  strategy_script repr (time_stamp clk) (take 20 (set_order (collected_codes p)))\<rparr>,
              files(strategy_path (day clk) \<mapsto>
                  strategy_script repr (time_stamp clk) (take 20 (set_order (collected_codes p))))))
     \<and> distinct (take 20 (set_order (collected_codes p)))
     \<and> set (take 20 (set_order (collected_codes p))) \<subseteq> collected_codes p
     \<and> length (take 20 (set_order (collected_codes p))) = min 20 (card (collected_codes p))
     \<and> str_in (''STOCK_POOL = '' @ list_repr repr (take 20 (set_order (collected_codes p)))
               @ [CHR 0x0A])
         (strategy_script repr (time_stamp clk) (take 20 (set_order (collected_codes p))))"
proof -
  have g: "generate_code set_order repr clk (p, files) =
       (if collected_codes p = {} then (p, files)
        else (p\<lparr>code_preview :=
                  strategy_script repr (time_stamp clk) (take 20 (set_order (collected_codes p)))\<rparr>,
              files(strategy_path (day clk) \<mapsto>
                  strategy_script repr (time_stamp clk) (take 20 (set_order (collected_codes p))))))"
    by (simp add: generate_code_def Let_def)
  show ?thesis
    by (intro conjI)
      (rule g, rule take_order_facts(1) [of set_order "collected_codes p", OF assms],
       rule take_order_facts(2) [of set_order "collected_codes p", OF assms],
       rule take_order_facts(3) [of set_order "collected_codes p", OF assms],
       rule script_embeds_list)
qed

theorem strategy_script_written_witness:
  "distinct (first_order (collected_codes panel_with_codes))
   \<and> set (first_order (collected_codes panel_with_codes)) = collected_codes panel_with_codes
   \<and> collected_codes panel_with_codes = {''000001''}
   \<and> generate_code first_order quote_repr clock_day1 (panel_with_codes, Map.empty) =
       (panel_with_codes\<lparr>code_preview :=
            strategy_script quote_repr ''2024-01-01 09:30:00'' [''000001'']\<rparr>,
        [strategy_path ''20240101'' \<mapsto>
            strategy_script quote_repr ''2024-01-01 09:30:00'' [''000001'']])
   \<and> generate_code first_order quote_repr clock_day1 (init_panel, Map.empty) =
       (init_panel, Map.empty)"
proof -
  have c: "collected_codes panel_with_codes = {''000001''}"
    by (simp add: collected_codes_def panel_with_codes_def init_panel_def stock_alpha_def)
  have c0: "collected_codes init_panel = {}"
    by (simp add: collected_codes_def init_panel_def)
  have o: "first_order {''000001''} = [''000001'']" by (simp add: first_order_def)
  have o0: "first_order {} = []" by (simp add: first_order_def)
  have h1: "distinct (first_order (collected_codes panel_with_codes))"
    by (simp add: c o)
  have h2: "set (first_order (collected_codes panel_with_codes)) = collected_codes panel_with_codes"
    by (simp add: c o)
  have k1: "distinct (first_order (collected_codes init_panel))" by (simp add: c0 o0)
  have k2: "set (first_order (collected_codes init_panel)) = collected_codes init_panel"
    by (simp add: c0 o0)
  have t: "take 20 [''000001''] = [''000001'']" by simp
  have ne: "{''000001''} \<noteq> ({} :: string set)" by simp
  have ck: "time_stamp clock_day1 = ''2024-01-01 09:30:00''" "day clock_day1 = ''20240101''"
    by (simp_all add: clock_day1_def)
  note w = strategy_script_written [where set_order = first_order and p = panel_with_codes
      and repr = quote_repr and clk = clock_day1 and files = Map.empty, OF h1 h2,
      unfolded c o t ck if_not_P [OF ne]]
  note v = strategy_script_written [where set_order = first_order and p = init_panel
      and repr = quote_repr and clk = clock_day1 and files = Map.empty, OF k1 k2,
      unfolded c0 if_P [OF refl]]
  from w have a: "generate_code first_order quote_repr clock_day1 (panel_with_codes, Map.empty) =
       (panel_with_codes\<lparr>code_preview :=
            strategy_script quote_repr ''2024-01-01 09:30:00'' [''000001'']\<rparr>,
        [strategy_path ''20240101'' \<mapsto>
            strategy_script quote_repr ''2024-01-01 09:30:00'' [''000001'']])"
    by blast
  from v have b: "generate_code first_order quote_repr clock_day1 (init_panel, Map.empty) =
       (init_panel, Map.empty)"
    by blast
  from h1 h2 c a b show ?thesis by blast
qed

text \<open>
  The claim as it is stated fails on the path: it is not fixed, the file name
  holds the day. The same panel generates into one file on one day and into
  another file on the next.
\<close>

theorem strategy_script_written_counterexample:
  "dom (snd (generate_code first_order quote_repr clock_day1 (panel_with_codes, Map.empty)))
     = {strategy_path ''20240101''}
   \<and> dom (snd (generate_code first_order quote_repr clock_day2 (panel_with_codes, Map.empty)))
     = {strategy_path ''20240102''}
   \<and> strategy_path ''20240101'' \<noteq> strategy_path ''20240102''"
proof -
  have c: "collected_codes panel_with_codes = {''000001''}"
    by (simp add: collected_codes_def panel_with_codes_def init_panel_def stock_alpha_def)
  have ne: "{''000001''} \<noteq> ({} :: string set)" by simp
  have "dom (snd (generate_code first_order quote_repr clk (panel_with_codes, Map.empty)))
     = {strategy_path (day clk)}" for clk
    by (simp add: generate_code_def Let_def c)
  from this [of clock_day1] this [of clock_day2]
  have "dom (snd (generate_code first_order quote_repr clock_day1 (panel_with_codes, Map.empty)))
     = {strategy_path ''20240101''}"
    and "dom (snd (generate_code first_order quote_repr clock_day2 (panel_with_codes, Map.empty)))
     = {strategy_path ''20240102''}"
    by (simp_all add: clock_day1_def clock_day2_def)
  moreover have "strategy_path ''20240101'' \<noteq> strategy_path ''20240102''"
    by (simp add: strategy_path_def)
  ultimately show ?thesis by blast
qed


end
